theory Spec2Isabelle
  imports Main
begin

section \<open>Appointments (models/appointment.py)\<close>

text \<open>
  A naive Python \<^verbatim>\<open>datetime\<close> is a point on a timeline with microsecond resolution.
  It is modelled as the number of microseconds since 0001-01-01T00:00:00, an \<^typ>\<open>int\<close>;
  comparison of datetimes is comparison of these numbers and adding a \<^verbatim>\<open>timedelta\<close> is
  integer addition. The bounds of the type (years 1 to 9999) are not modelled.
\<close>

type_synonym datetime = int

definition timedelta_minutes :: "int \<Rightarrow> int" where
  "timedelta_minutes m = m * 60000000"

definition timedelta_hours :: "int \<Rightarrow> int" where
  "timedelta_hours h = h * 3600000000"

datatype AppointmentStatus =
  SCHEDULED | CONFIRMED | IN_PROGRESS | COMPLETED | CANCELLED | NO_SHOW

datatype AppointmentType =
  CONSULTATION | CLEANING | FILLING | ROOT_CANAL | EXTRACTION | WHITENING | IMPLANT
  | EMERGENCY | FOLLOW_UP

text \<open>
  The values that \<^verbatim>\<open>to_dict\<close> writes and \<^verbatim>\<open>json\<close> stores: the entries of
  \<^verbatim>\<open>reminders_sent\<close> and \<^verbatim>\<open>treatment_notes\<close> are dictionaries of strings.
\<close>

datatype json =
  JNone | JStr string | JInt int | JList "json list" | JDict "(string \<times> json) list"

record appointment =
  appointment_id :: string
  patient_id :: string
  appointment_type :: AppointmentType
  scheduled_date :: datetime
  duration_minutes :: int
  dentist_id :: "string option"
  notes' :: string
  status :: AppointmentStatus
  created_at :: datetime
  updated_at :: datetime
  reminders_sent :: "json list"
  treatment_notes :: "json list"

text \<open>
  \<^verbatim>\<open>Appointment.__init__\<close> reads the clock twice, for \<^verbatim>\<open>created_at\<close> and for
  \<^verbatim>\<open>updated_at\<close>; the two readings are the parameters \<open>t1\<close> and \<open>t2\<close>.
\<close>

definition Appointment ::
  "string \<Rightarrow> string \<Rightarrow> AppointmentType \<Rightarrow> datetime \<Rightarrow> int \<Rightarrow> string option \<Rightarrow> string
     \<Rightarrow> datetime \<Rightarrow> datetime \<Rightarrow> appointment" where
  "Appointment aid pid ty sd dur dent nts t1 t2 =
     \<lparr>appointment_id = aid, patient_id = pid, appointment_type = ty, scheduled_date = sd,
      duration_minutes = dur, dentist_id = dent, notes' = nts, status = SCHEDULED,
      created_at = t1, updated_at = t2, reminders_sent = [], treatment_notes = []\<rparr>"

definition update_status :: "appointment \<Rightarrow> AppointmentStatus \<Rightarrow> datetime \<Rightarrow> appointment" where
  "update_status a new_status now = a\<lparr>status := new_status, updated_at := now\<rparr>"

definition get_end_time :: "appointment \<Rightarrow> datetime" where
  "get_end_time a = scheduled_date a + timedelta_minutes (duration_minutes a)"

definition can_be_cancelled :: "appointment \<Rightarrow> datetime \<Rightarrow> bool" where
  "can_be_cancelled a now = (scheduled_date a > now + timedelta_hours 24)"

section \<open>The appointment store (services/appointment_service.py)\<close>

text \<open>
  \<^verbatim>\<open>self.appointments\<close> is a Python dictionary from appointment id to appointment. It is
  modelled as an association list in insertion order: \<open>dict_get\<close> is \<^verbatim>\<open>dict.get\<close>,
  \<open>dict_set\<close> is \<^verbatim>\<open>d[k] = v\<close> (an existing key keeps its place, a new one goes last),
  \<open>dict_values\<close> is \<^verbatim>\<open>d.values()\<close>. Writing the store to its JSON file changes nothing
  in memory, and its errors are caught and printed, so \<^verbatim>\<open>_save_appointments\<close> has no
  counterpart here.
\<close>

type_synonym store = "(string \<times> appointment) list"

fun dict_get :: "('k \<times> 'v) list \<Rightarrow> 'k \<Rightarrow> 'v option" where
  "dict_get [] k = None"
| "dict_get ((k', v) # kvs) k = (if k' = k then Some v else dict_get kvs k)"

fun dict_set :: "('k \<times> 'v) list \<Rightarrow> 'k \<Rightarrow> 'v \<Rightarrow> ('k \<times> 'v) list" where
  "dict_set [] k v = [(k, v)]"
| "dict_set ((k', v') # kvs) k v =
     (if k' = k then (k, v) # kvs else (k', v') # dict_set kvs k v)"

definition dict_values :: "('k \<times> 'v) list \<Rightarrow> 'v list" where
  "dict_values kvs = map snd kvs"

text \<open>
  Python's truth test on an \<^verbatim>\<open>Optional[str]\<close>: \<^verbatim>\<open>None\<close> and the empty string are
  false, every other string is true.
\<close>

fun truthy :: "string option \<Rightarrow> bool" where
  "truthy None = False"
| "truthy (Some s) = (s \<noteq> [])"

text \<open>The loop of \<^verbatim>\<open>_has_conflict\<close> over the stored appointments.\<close>

fun conflict_scan :: "appointment list \<Rightarrow> datetime \<Rightarrow> datetime \<Rightarrow> string option \<Rightarrow> bool" where
  "conflict_scan [] sd end_time dent = False"
| "conflict_scan (a # rest) sd end_time dent =
     (if status a \<in> set [CANCELLED, NO_SHOW] then conflict_scan rest sd end_time dent
      else if truthy dent \<and> truthy (dentist_id a) \<and> dentist_id a \<noteq> dent
        then conflict_scan rest sd end_time dent
      else if sd < get_end_time a \<and> end_time > scheduled_date a then True
      else conflict_scan rest sd end_time dent)"

definition has_conflict :: "store \<Rightarrow> datetime \<Rightarrow> int \<Rightarrow> string option \<Rightarrow> bool" where
  "has_conflict s sd dur dent =
     (let end_time = sd + timedelta_minutes dur
      in conflict_scan (dict_values s) sd end_time dent)"

text \<open>The format \<^verbatim>\<open>f"A{n:04d}"\<close> of a positive count.\<close>

fun decimal :: "nat \<Rightarrow> string" where
  "decimal n =
     (if n < 10 then [char_of (48 + n)] else decimal (n div 10) @ [char_of (48 + n mod 10)])"

declare decimal.simps [simp del]

definition format_04d :: "nat \<Rightarrow> string" where
  "format_04d n = (let ds = decimal n in replicate (4 - length ds) CHR ''0'' @ ds)"

definition next_id :: "store \<Rightarrow> string" where
  "next_id s = CHR ''A'' # format_04d (length s + 1)"

definition create_appointment ::
  "store \<Rightarrow> string \<Rightarrow> AppointmentType \<Rightarrow> datetime \<Rightarrow> int \<Rightarrow> string option \<Rightarrow> string
     \<Rightarrow> datetime \<Rightarrow> datetime \<Rightarrow> store \<times> appointment option" where
  "create_appointment s pid ty sd dur dent nts t1 t2 =
     (if has_conflict s sd dur dent then (s, None)
      else
        let aid = next_id s;
            a = Appointment aid pid ty sd dur dent nts t1 t2
        in (dict_set s aid a, Some a))"

definition get_appointment :: "store \<Rightarrow> string \<Rightarrow> appointment option" where
  "get_appointment s aid = dict_get s aid"

text \<open>
  \<^verbatim>\<open>cancel_appointment\<close>: \<open>now\<close> is the clock reading of \<^verbatim>\<open>can_be_cancelled\<close>,
  \<open>now'\<close> the later one of \<^verbatim>\<open>update_status\<close>. An appointment object is always true
  in a truth test, so \<^verbatim>\<open>if appointment and ...\<close> tests that the id is stored.
\<close>

definition cancel_note :: "string \<Rightarrow> string" where
  "cancel_note reason =
     (if reason \<noteq> [] then [CHR 0x0A] @ ''Cancelled: '' @ reason else [CHR 0x0A] @ ''Cancelled'')"

definition cancel_appointment ::
  "store \<Rightarrow> string \<Rightarrow> string \<Rightarrow> datetime \<Rightarrow> datetime \<Rightarrow> store \<times> bool" where
  "cancel_appointment s aid reason now now' =
     (case get_appointment s aid of
        None \<Rightarrow> (s, False)
      | Some a \<Rightarrow>
          if can_be_cancelled a now then
            let a1 = update_status a CANCELLED now';
                a2 = a1\<lparr>notes' := notes' a1 @ cancel_note reason\<rparr>
            in (dict_set s aid a2, True)
          else (s, False))"

definition reschedule_appointment ::
  "store \<Rightarrow> string \<Rightarrow> datetime \<Rightarrow> datetime \<Rightarrow> store \<times> bool" where
  "reschedule_appointment s aid new_date now =
     (case get_appointment s aid of
        None \<Rightarrow> (s, False)
      | Some a \<Rightarrow>
          if has_conflict s new_date (duration_minutes a) (dentist_id a) then (s, False)
          else (dict_set s aid (a\<lparr>scheduled_date := new_date, updated_at := now\<rparr>), True))"

text \<open>
  \<^verbatim>\<open>get_available_slots\<close>: \<open>date_of\<close> is \<^verbatim>\<open>date.date()\<close> at midnight, the window is
  09:00 to 17:00 of that day, and the loop steps by 30 minutes while the slot still ends
  inside the window.
\<close>

definition date_of :: "datetime \<Rightarrow> datetime" where
  "date_of d = (d div 86400000000) * 86400000000"

function slots_loop ::
  "store \<Rightarrow> int \<Rightarrow> string option \<Rightarrow> datetime \<Rightarrow> datetime \<Rightarrow> datetime list \<Rightarrow> datetime list" where
  "slots_loop s dur dent end_time current_time slots =
     (if current_time + timedelta_minutes dur \<le> end_time then
        slots_loop s dur dent end_time (current_time + timedelta_minutes 30)
          (if \<not> has_conflict s current_time dur dent then slots @ [current_time] else slots)
      else slots)"
  by pat_completeness auto
termination
  by (relation "measure (\<lambda>(s, dur, dent, end_time, current_time, slots).
        nat (end_time - (current_time + timedelta_minutes dur) + 1))")
     (auto simp: timedelta_minutes_def)

declare slots_loop.simps [simp del]

definition get_available_slots :: "store \<Rightarrow> datetime \<Rightarrow> int \<Rightarrow> string option \<Rightarrow> datetime list" where
  "get_available_slots s date dur dent =
     (let start_time = date_of date + timedelta_hours 9;
          end_time = date_of date + timedelta_hours 17
      in slots_loop s dur dent end_time start_time [])"

section \<open>Persistence of an appointment\<close>

text \<open>
  \<^verbatim>\<open>to_dict\<close> and \<^verbatim>\<open>_create_appointment_from_dict\<close>. The dictionary is an association
  list of \<^typ>\<open>json\<close> values. \<^verbatim>\<open>datetime.isoformat\<close> and \<^verbatim>\<open>datetime.fromisoformat\<close>
  belong to the Python library, not to this program, and are parameters of the two
  functions. The \<^verbatim>\<open>value\<close> of an enumeration member and the lookup of a member by value
  are the tables of models/appointment.py. A missing key raises \<^verbatim>\<open>KeyError\<close>, an unknown
  enumeration value \<^verbatim>\<open>ValueError\<close>; \<open>TypeError\<close> stands for a value of another JSON type
  than the field's, which the typed record cannot hold.
\<close>

datatype error = KeyError string | ValueError | TypeError

fun AppointmentType_value :: "AppointmentType \<Rightarrow> string" where
  "AppointmentType_value CONSULTATION = ''consultation''"
| "AppointmentType_value CLEANING = ''cleaning''"
| "AppointmentType_value FILLING = ''filling''"
| "AppointmentType_value ROOT_CANAL = ''root_canal''"
| "AppointmentType_value EXTRACTION = ''extraction''"
| "AppointmentType_value WHITENING = ''whitening''"
| "AppointmentType_value IMPLANT = ''implant''"
| "AppointmentType_value EMERGENCY = ''emergency''"
| "AppointmentType_value FOLLOW_UP = ''follow_up''"

definition AppointmentType_of :: "string \<Rightarrow> error + AppointmentType" where
  "AppointmentType_of v =
     (case List.find (\<lambda>m. AppointmentType_value m = v)
             [CONSULTATION, CLEANING, FILLING, ROOT_CANAL, EXTRACTION, WHITENING, IMPLANT,
              EMERGENCY, FOLLOW_UP] of
        None \<Rightarrow> Inl ValueError
      | Some m \<Rightarrow> Inr m)"

fun AppointmentStatus_value :: "AppointmentStatus \<Rightarrow> string" where
  "AppointmentStatus_value SCHEDULED = ''scheduled''"
| "AppointmentStatus_value CONFIRMED = ''confirmed''"
| "AppointmentStatus_value IN_PROGRESS = ''in_progress''"
| "AppointmentStatus_value COMPLETED = ''completed''"
| "AppointmentStatus_value CANCELLED = ''cancelled''"
| "AppointmentStatus_value NO_SHOW = ''no_show''"

definition AppointmentStatus_of :: "string \<Rightarrow> error + AppointmentStatus" where
  "AppointmentStatus_of v =
     (case List.find (\<lambda>m. AppointmentStatus_value m = v)
             [SCHEDULED, CONFIRMED, IN_PROGRESS, COMPLETED, CANCELLED, NO_SHOW] of
        None \<Rightarrow> Inl ValueError
      | Some m \<Rightarrow> Inr m)"

definition to_dict :: "(datetime \<Rightarrow> string) \<Rightarrow> appointment \<Rightarrow> (string \<times> json) list" where
  "to_dict isoformat a =
     [(''appointment_id'', JStr (appointment_id a)),
      (''patient_id'', JStr (patient_id a)),
      (''appointment_type'', JStr (AppointmentType_value (appointment_type a))),
      (''scheduled_date'', JStr (isoformat (scheduled_date a))),
      (''duration_minutes'', JInt (duration_minutes a)),
      (''dentist_id'', (case dentist_id a of None \<Rightarrow> JNone | Some d \<Rightarrow> JStr d)),
      (''notes'', JStr (notes' a)),
      (''status'', JStr (AppointmentStatus_value (status a))),
      (''created_at'', JStr (isoformat (created_at a))),
      (''updated_at'', JStr (isoformat (updated_at a))),
      (''reminders_sent'', JList (reminders_sent a)),
      (''treatment_notes'', JList (treatment_notes a))]"

definition bind_result :: "'e + 'a \<Rightarrow> ('a \<Rightarrow> 'e + 'b) \<Rightarrow> 'e + 'b" where
  "bind_result m f = (case m of Inl e \<Rightarrow> Inl e | Inr x \<Rightarrow> f x)"

text \<open>\<open>item data k\<close> is \<^verbatim>\<open>data[k]\<close>; the \<open>get_\<close> functions are \<^verbatim>\<open>data.get(k, default)\<close>.\<close>

definition item :: "(string \<times> json) list \<Rightarrow> string \<Rightarrow> error + json" where
  "item data k = (case dict_get data k of None \<Rightarrow> Inl (KeyError k) | Some v \<Rightarrow> Inr v)"

fun as_str :: "json \<Rightarrow> error + string" where
  "as_str (JStr s) = Inr s"
| "as_str _ = Inl TypeError"

fun as_int :: "json \<Rightarrow> error + int" where
  "as_int (JInt i) = Inr i"
| "as_int _ = Inl TypeError"

definition get_optional_str :: "(string \<times> json) list \<Rightarrow> string \<Rightarrow> error + string option" where
  "get_optional_str data k =
     (case dict_get data k of
        None \<Rightarrow> Inr None
      | Some JNone \<Rightarrow> Inr None
      | Some (JStr s) \<Rightarrow> Inr (Some s)
      | Some _ \<Rightarrow> Inl TypeError)"

definition get_str :: "(string \<times> json) list \<Rightarrow> string \<Rightarrow> string \<Rightarrow> error + string" where
  "get_str data k dflt =
     (case dict_get data k of None \<Rightarrow> Inr dflt | Some v \<Rightarrow> as_str v)"

definition get_list :: "(string \<times> json) list \<Rightarrow> string \<Rightarrow> error + json list" where
  "get_list data k =
     (case dict_get data k of
        None \<Rightarrow> Inr []
      | Some (JList xs) \<Rightarrow> Inr xs
      | Some _ \<Rightarrow> Inl TypeError)"

text \<open>
  The constructor runs first, with the two clock readings \<open>t1\<close> and \<open>t2\<close> of
  \<^verbatim>\<open>Appointment.__init__\<close>; the five assignments that restore the other fields follow
  in the order of the source.
\<close>

definition create_appointment_from_dict ::
  "(string \<Rightarrow> error + datetime) \<Rightarrow> (string \<times> json) list \<Rightarrow> datetime \<Rightarrow> datetime
     \<Rightarrow> error + appointment" where
  "create_appointment_from_dict fromisoformat data t1 t2 =
     bind_result (bind_result (item data ''appointment_id'') as_str) (\<lambda>aid.
     bind_result (bind_result (item data ''patient_id'') as_str) (\<lambda>pid.
     bind_result (bind_result (bind_result (item data ''appointment_type'') as_str)
                    AppointmentType_of) (\<lambda>ty.
     bind_result (bind_result (bind_result (item data ''scheduled_date'') as_str)
                    fromisoformat) (\<lambda>sd.
     bind_result (bind_result (item data ''duration_minutes'') as_int) (\<lambda>dur.
     bind_result (get_optional_str data ''dentist_id'') (\<lambda>dent.
     bind_result (get_str data ''notes'' []) (\<lambda>nts.
     let appointment = Appointment aid pid ty sd dur dent nts t1 t2 in
     bind_result (bind_result (bind_result (item data ''status'') as_str)
                    AppointmentStatus_of) (\<lambda>st.
     bind_result (get_list data ''reminders_sent'') (\<lambda>rs.
     bind_result (get_list data ''treatment_notes'') (\<lambda>tn.
     bind_result (bind_result (bind_result (item data ''created_at'') as_str)
                    fromisoformat) (\<lambda>ca.
     bind_result (bind_result (bind_result (item data ''updated_at'') as_str)
                    fromisoformat) (\<lambda>ua.
     Inr (appointment\<lparr>status := st, reminders_sent := rs, treatment_notes := tn,
            created_at := ca, updated_at := ua\<rparr>)))))))))))))"

section \<open>Intent resolution (utils/voice_processor.py)\<close>

text \<open>
  The regular expressions of the pattern tables use literals, alternation, grouping, an
  optional group, the classes \<^verbatim>\<open>\s\<close>, \<^verbatim>\<open>\w\<close>, \<^verbatim>\<open>\d\<close> and \<^verbatim>\<open>[/-]\<close>, \<^verbatim>\<open>+\<close> on a
  class and \<^verbatim>\<open>{m,n}\<close> on a class. \<open>matches r s\<close> lists what is left of \<open>s\<close> after
  each way \<open>r\<close> matches a prefix of it, in the order in which the backtracking matcher
  of \<^verbatim>\<open>re\<close> tries them (alternatives left to right, repetitions longest first), so
  that the head of the list is the match \<^verbatim>\<open>re\<close> reports. \<open>search\<close> is \<^verbatim>\<open>re.search\<close>:
  the first start position with a match, and \<^verbatim>\<open>group(0)\<close> of it. Characters are the
  ASCII range; there \<^verbatim>\<open>\s\<close> is the codes 9 to 13 and 28 to 32, as is the whitespace of
  \<^verbatim>\<open>str.strip\<close>.
\<close>

datatype cclass = Space | Word | Digit | OneOf string

datatype regex =
  Lit string | Cls cclass | Plus cclass | Rep cclass nat nat
  | Cat "regex list" | Or "regex list" | Opt regex

definition is_space :: "char \<Rightarrow> bool" where
  "is_space c = (let n = (of_char c :: nat) in (9 \<le> n \<and> n \<le> 13) \<or> (28 \<le> n \<and> n \<le> 32))"

definition is_digit :: "char \<Rightarrow> bool" where
  "is_digit c = (let n = (of_char c :: nat) in 48 \<le> n \<and> n \<le> 57)"

definition is_word :: "char \<Rightarrow> bool" where
  "is_word c = (let n = (of_char c :: nat) in
     (48 \<le> n \<and> n \<le> 57) \<or> (65 \<le> n \<and> n \<le> 90) \<or> n = 95 \<or> (97 \<le> n \<and> n \<le> 122))"

fun in_class :: "cclass \<Rightarrow> char \<Rightarrow> bool" where
  "in_class Space c = is_space c"
| "in_class Word c = is_word c"
| "in_class Digit c = is_digit c"
| "in_class (OneOf cs) c = (c \<in> set cs)"

fun starts_with :: "string \<Rightarrow> string \<Rightarrow> bool" where
  "starts_with [] s = True"
| "starts_with (x # xs) [] = False"
| "starts_with (x # xs) (y # ys) = (x = y \<and> starts_with xs ys)"

fun matches :: "regex \<Rightarrow> string \<Rightarrow> string list" where
  "matches (Lit w) s = (if starts_with w s then [drop (length w) s] else [])"
| "matches (Cls c) s = (case s of [] \<Rightarrow> [] | x # xs \<Rightarrow> if in_class c x then [xs] else [])"
| "matches (Plus c) s =
     (let n = length (takeWhile (in_class c) s) in map (\<lambda>k. drop k s) (rev [1..<Suc n]))"
| "matches (Rep c lo hi) s =
     (let n = min hi (length (takeWhile (in_class c) s))
      in map (\<lambda>k. drop k s) (rev [lo..<Suc n]))"
| "matches (Cat rs) s = foldl (\<lambda>ss r. concat (map (matches r) ss)) [s] rs"
| "matches (Or rs) s = concat (map (\<lambda>r. matches r s) rs)"
| "matches (Opt r) s = matches r s @ [s]"

fun search :: "regex \<Rightarrow> string \<Rightarrow> string option" where
  "search r [] = (case matches r [] of [] \<Rightarrow> None | rest # _ \<Rightarrow> Some [])"
| "search r (c # cs) =
     (case matches r (c # cs) of
        [] \<Rightarrow> search r cs
      | rest # _ \<Rightarrow> Some (take (length (c # cs) - length rest) (c # cs)))"

text \<open>
  \<open>contains t sub\<close> is \<^verbatim>\<open>sub in t\<close>; \<open>lower\<close> and \<open>strip\<close> are \<^verbatim>\<open>str.lower\<close> and
  \<^verbatim>\<open>str.strip\<close> on ASCII text.
\<close>

fun contains :: "string \<Rightarrow> string \<Rightarrow> bool" where
  "contains [] sub = (sub = [])"
| "contains (c # cs) sub = (starts_with sub (c # cs) \<or> contains cs sub)"

definition lower_char :: "char \<Rightarrow> char" where
  "lower_char c = (let n = (of_char c :: nat) in if 65 \<le> n \<and> n \<le> 90 then char_of (n + 32) else c)"

definition lower :: "string \<Rightarrow> string" where
  "lower s = map lower_char s"

definition strip :: "string \<Rightarrow> string" where
  "strip s = rev (dropWhile is_space (rev (dropWhile is_space s)))"

text \<open>
  \<open>ws\<close> is \<^verbatim>\<open>\s+\<close>, and \<open>words [u, v, ...]\<close> is the group \<^verbatim>\<open>(u|v|...)\<close> of literal
  alternatives. Capturing does not change what matches, so a group is only its content.
  The intent patterns of the source, in the order of the dictionary:
  \<^item> schedule_appointment:
    \<^verbatim>\<open>(schedule|book|make)\s+(an?\s+)?appointment\<close>,
    \<^verbatim>\<open>(want|need)\s+(to\s+)?(schedule|book)\s+(an?\s+)?appointment\<close>,
    \<^verbatim>\<open>appointment\s+(for|on)\s+(\w+)\<close>,
    \<^verbatim>\<open>(when|what)\s+(time|day)\s+(are|do)\s+(you|they)\s+(have|available)\<close>;
  \<^item> check_availability:
    \<^verbatim>\<open>(available|open|free)\s+(time|slot|appointment)\<close>,
    \<^verbatim>\<open>(what|when)\s+(are|do)\s+(you|they)\s+(have|available)\<close>,
    \<^verbatim>\<open>(next|upcoming)\s+(available|open)\s+(time|slot)\<close>;
  \<^item> insurance_inquiry:
    \<^verbatim>\<open>(accept|take|work\s+with)\s+(insurance|coverage)\<close>,
    \<^verbatim>\<open>(what|which)\s+(insurance|provider)\s+(do\s+you|are\s+accepted)\<close>,
    \<^verbatim>\<open>(my|the)\s+(insurance|provider)\s+(is|are)\<close>,
    \<^verbatim>\<open>(coverage|benefits)\s+(for|of)\<close>;
  \<^item> service_inquiry:
    \<^verbatim>\<open>(what|which)\s+(services|treatments)\s+(do\s+you|are\s+offered)\<close>,
    \<^verbatim>\<open>(cost|price|how\s+much)\s+(for|is)\s+(\w+)\<close>,
    \<^verbatim>\<open>(cleaning|filling|whitening|checkup)\s+(cost|price)\<close>;
  \<^item> office_hours:
    \<^verbatim>\<open>(what|when)\s+(are|do)\s+(you|they)\s+(open|close)\<close>,
    \<^verbatim>\<open>(hours|schedule)\s+(of\s+operation)?\<close>,
    \<^verbatim>\<open>(open|closed)\s+(on|during)\<close>;
  \<^item> emergency:
    \<^verbatim>\<open>(emergency|urgent|pain|hurt)\<close>,
    \<^verbatim>\<open>(broken|cracked|chipped)\s+(tooth|teeth)\<close>,
    \<^verbatim>\<open>(severe|bad|terrible)\s+(pain|ache)\<close>.
\<close>

definition ws :: regex where
  "ws = Plus Space"

definition words :: "string list \<Rightarrow> regex" where
  "words us = Or (map Lit us)"

definition intent_patterns :: "(string \<times> regex list) list" where
  "intent_patterns =
   [(''schedule_appointment'',
      [Cat [words [''schedule'', ''book'', ''make''], ws,
            Opt (Cat [Lit ''a'', Opt (Lit ''n''), ws]), Lit ''appointment''],
       Cat [words [''want'', ''need''], ws, Opt (Cat [Lit ''to'', ws]),
            words [''schedule'', ''book''], ws,
            Opt (Cat [Lit ''a'', Opt (Lit ''n''), ws]), Lit ''appointment''],
       Cat [Lit ''appointment'', ws, words [''for'', ''on''], ws, Plus Word],
       Cat [words [''when'', ''what''], ws, words [''time'', ''day''], ws,
            words [''are'', ''do''], ws, words [''you'', ''they''], ws,
            words [''have'', ''available'']]]),
    (''check_availability'',
      [Cat [words [''available'', ''open'', ''free''], ws,
            words [''time'', ''slot'', ''appointment'']],
       Cat [words [''what'', ''when''], ws, words [''are'', ''do''], ws,
            words [''you'', ''they''], ws, words [''have'', ''available'']],
       Cat [words [''next'', ''upcoming''], ws, words [''available'', ''open''], ws,
            words [''time'', ''slot'']]]),
    (''insurance_inquiry'',
      [Cat [Or [Lit ''accept'', Lit ''take'', Cat [Lit ''work'', ws, Lit ''with'']], ws,
            words [''insurance'', ''coverage'']],
       Cat [words [''what'', ''which''], ws, words [''insurance'', ''provider''], ws,
            Or [Cat [Lit ''do'', ws, Lit ''you''], Cat [Lit ''are'', ws, Lit ''accepted'']]],
       Cat [words [''my'', ''the''], ws, words [''insurance'', ''provider''], ws,
            words [''is'', ''are'']],
       Cat [words [''coverage'', ''benefits''], ws, words [''for'', ''of'']]]),
    (''service_inquiry'',
      [Cat [words [''what'', ''which''], ws, words [''services'', ''treatments''], ws,
            Or [Cat [Lit ''do'', ws, Lit ''you''], Cat [Lit ''are'', ws, Lit ''offered'']]],
       Cat [Or [Lit ''cost'', Lit ''price'', Cat [Lit ''how'', ws, Lit ''much'']], ws,
            words [''for'', ''is''], ws, Plus Word],
       Cat [words [''cleaning'', ''filling'', ''whitening'', ''checkup''], ws,
            words [''cost'', ''price'']]]),
    (''office_hours'',
      [Cat [words [''what'', ''when''], ws, words [''are'', ''do''], ws,
            words [''you'', ''they''], ws, words [''open'', ''close'']],
       Cat [words [''hours'', ''schedule''], ws,
            Opt (Cat [Lit ''of'', ws, Lit ''operation''])],
       Cat [words [''open'', ''closed''], ws, words [''on'', ''during'']]]),
    (''emergency'',
      [words [''emergency'', ''urgent'', ''pain'', ''hurt''],
       Cat [words [''broken'', ''cracked'', ''chipped''], ws, words [''tooth'', ''teeth'']],
       Cat [words [''severe'', ''bad'', ''terrible''], ws, words [''pain'', ''ache'']]])]"

text \<open>The list \<^verbatim>\<open>dental_keywords['services']\<close>.\<close>

definition services_keywords :: "string list" where
  "services_keywords = [''cleaning'', ''filling'', ''whitening'', ''checkup'', ''emergency'']"

text \<open>
  The date patterns of \<^verbatim>\<open>extract_entities\<close>, in order:
  \<^verbatim>\<open>(today|tomorrow|next\s+\w+)\<close>,
  \<^verbatim>\<open>(\d{1,2})[/-](\d{1,2})[/-](\d{2,4})\<close>,
  \<^verbatim>\<open>(monday|tuesday|wednesday|thursday|friday|saturday|sunday)\<close>,
  \<^verbatim>\<open>(morning|afternoon|evening|night)\<close>.
\<close>

definition date_patterns :: "regex list" where
  "date_patterns =
    [Or [Lit ''today'', Lit ''tomorrow'', Cat [Lit ''next'', ws, Plus Word]],
     Cat [Rep Digit 1 2, Cls (OneOf ''/-''), Rep Digit 1 2, Cls (OneOf ''/-''), Rep Digit 2 4],
     words [''monday'', ''tuesday'', ''wednesday'', ''thursday'', ''friday'', ''saturday'',
       ''sunday''],
     words [''morning'', ''afternoon'', ''evening'', ''night'']]"

text \<open>
  The entities are a dictionary from names to strings, in insertion order.
  \<open>first_search\<close> is the loop over patterns that stops at the first one found in the text
  and yields \<^verbatim>\<open>match.group(0)\<close>; \<open>first_contained\<close> is the loop over keywords that stops
  at the first one that is a substring of the text (\<^verbatim>\<open>keyword in text\<close>).
\<close>

type_synonym entities = "(string \<times> string) list"

fun first_search :: "regex list \<Rightarrow> string \<Rightarrow> string option" where
  "first_search [] t = None"
| "first_search (p # ps) t = (case search p t of Some m \<Rightarrow> Some m | None \<Rightarrow> first_search ps t)"

fun first_contained :: "string list \<Rightarrow> string \<Rightarrow> string option" where
  "first_contained [] t = None"
| "first_contained (w # rest) t = (if contains t w then Some w else first_contained rest t)"

definition extract_entities :: "string \<Rightarrow> string \<Rightarrow> entities" where
  "extract_entities t intent =
     (let entities = [(''original_text'', t)] in
      if intent = ''schedule_appointment'' then
        let entities1 = (case first_search date_patterns t of
                           Some m \<Rightarrow> dict_set entities ''preferred_time'' m
                         | None \<Rightarrow> entities)
        in (case first_contained services_keywords t of
              Some service \<Rightarrow> dict_set entities1 ''service_type'' service
            | None \<Rightarrow> entities1)
      else if intent = ''insurance_inquiry'' then
        (case first_contained [''delta dental'', ''aetna'', ''cigna'', ''blue cross'', ''metlife'',
                 ''unitedhealthcare''] t of
           Some provider \<Rightarrow> dict_set entities ''insurance_provider'' provider
         | None \<Rightarrow> entities)
      else if intent = ''service_inquiry'' then
        (case first_contained services_keywords t of
           Some service \<Rightarrow> dict_set entities ''service_type'' service
         | None \<Rightarrow> entities)
      else if intent = ''emergency'' then
        (case first_contained [''severe'', ''bad'', ''terrible'', ''excruciating'', ''unbearable''] t of
           Some w \<Rightarrow> dict_set entities ''urgency_level'' ''high''
         | None \<Rightarrow> dict_set entities ''urgency_level'' ''medium'')
      else entities)"

text \<open>
  \<^verbatim>\<open>extract_intent\<close>: \<open>any_match\<close> is the inner loop over the patterns of one intent,
  \<open>first_intent\<close> the outer loop over the intents in dictionary order; the function
  returns from inside the loops at the first pattern that \<^verbatim>\<open>re.search\<close> finds.
\<close>

fun any_match :: "regex list \<Rightarrow> string \<Rightarrow> bool" where
  "any_match [] t = False"
| "any_match (p # ps) t = (if search p t \<noteq> None then True else any_match ps t)"

fun first_intent :: "(string \<times> regex list) list \<Rightarrow> string \<Rightarrow> string option" where
  "first_intent [] t = None"
| "first_intent ((intent, patterns) # rest) t =
     (if any_match patterns t then Some intent else first_intent rest t)"

definition extract_intent :: "string \<Rightarrow> string \<times> entities" where
  "extract_intent text =
     (let t = strip (lower text) in
      case first_intent intent_patterns t of
        Some intent \<Rightarrow> (intent, extract_entities t intent)
      | None \<Rightarrow> (''general_inquiry'', [(''query'', t)]))"

section \<open>The properties, as stated\<close>

text \<open>
  An appointment is active when its status is neither cancelled nor no-show. Two half-open
  intervals \<open>[s1, s1 + d1)\<close> and \<open>[s2, s2 + d2)\<close> overlap when each starts before the other
  ends; for positive durations this says that they share a point in time
  (\<open>overlap_is_intersection\<close> below).
\<close>

definition active :: "appointment \<Rightarrow> bool" where
  "active a = (status a \<noteq> CANCELLED \<and> status a \<noteq> NO_SHOW)"

definition intervals_overlap :: "datetime \<Rightarrow> int \<Rightarrow> datetime \<Rightarrow> int \<Rightarrow> bool" where
  "intervals_overlap s1 d1 s2 d2 =
     (s1 < s2 + timedelta_minutes d2 \<and> s2 < s1 + timedelta_minutes d1)"

text \<open>
  The conflict rule between a request (start, duration, dentist id) and an appointment:
  the intervals overlap, and it is not the case that both sides have a dentist id
  assigned and the two ids differ. A dentist id is assigned when it passes Python's truth
  test: it is neither \<^verbatim>\<open>None\<close> nor the empty string.
\<close>

definition conflict_rule :: "datetime \<Rightarrow> int \<Rightarrow> string option \<Rightarrow> appointment \<Rightarrow> bool" where
  "conflict_rule sd dur dent a =
     (intervals_overlap sd dur (scheduled_date a) (duration_minutes a) \<and>
      \<not> (truthy dent \<and> truthy (dentist_id a) \<and> dentist_id a \<noteq> dent))"

text \<open>
  Two stored appointments are double-booked when both are active, they share a dentist id
  or one of them has none, and their intervals overlap. A list of appointments is
  conflict-free when no two of its entries are double-booked.
\<close>

definition double_booked :: "appointment \<Rightarrow> appointment \<Rightarrow> bool" where
  "double_booked a b =
     (active a \<and> active b \<and>
      (dentist_id a = dentist_id b \<or> dentist_id a = None \<or> dentist_id b = None) \<and>
      intervals_overlap (scheduled_date a) (duration_minutes a)
        (scheduled_date b) (duration_minutes b))"

fun conflict_free :: "appointment list \<Rightarrow> bool" where
  "conflict_free [] = True"
| "conflict_free (a # rest) = ((\<forall>b\<in>set rest. \<not> double_booked a b) \<and> conflict_free rest)"

text \<open>
  A sequence of calls of \<^verbatim>\<open>create_appointment\<close> and \<^verbatim>\<open>reschedule_appointment\<close>, each
  with its arguments and the clock readings it makes, run one after the other on a store.
\<close>

datatype call =
  Create string AppointmentType datetime int "string option" string datetime datetime
| Reschedule string datetime datetime

fun apply_call :: "store \<Rightarrow> call \<Rightarrow> store" where
  "apply_call s (Create pid ty sd dur dent nts t1 t2) =
     fst (create_appointment s pid ty sd dur dent nts t1 t2)"
| "apply_call s (Reschedule aid new_date now) =
     fst (reschedule_appointment s aid new_date now)"

fun run_calls :: "store \<Rightarrow> call list \<Rightarrow> store" where
  "run_calls s [] = s"
| "run_calls s (c # cs) = run_calls (apply_call s c) cs"

text \<open>
  The number that a string of decimal digits denotes: the generated id is the letter
  \<^verbatim>\<open>A\<close> followed by digits, and what makes it the next id in sequence is the number
  these digits denote.
\<close>

definition digit_value :: "char \<Rightarrow> nat" where
  "digit_value c = of_char c - 48"

definition decimal_value :: "string \<Rightarrow> nat" where
  "decimal_value ds = foldl (\<lambda>acc c. 10 * acc + digit_value c) 0 ds"

subsection \<open>Example data\<close>

text \<open>
  Times on 2024-01-15, as microseconds since 0001-01-01T00:00:00: 09:00 is
  63840906000000000, 10:00 is 63840909600000000, 10:30 is 63840911400000000, 11:00 is
  63840913200000000, 12:00 is 63840916800000000, 16:00 is 63840931200000000; 11:00 of the
  day before is 63840826800000000 and 09:00 of the day before is 63840819600000000.
\<close>

definition appt_1000 :: appointment where
  "appt_1000 =
     Appointment ''A0001'' ''P0001'' CLEANING 63840909600000000 60 None []
       63840471300250000 63840471300250001"

definition appt_1100 :: appointment where
  "appt_1100 =
     Appointment ''A0002'' ''P0002'' FILLING 63840913200000000 30 (Some ''D001'') ''upper left''
       63840571200000000 63840571200000000"

definition appt_cancelled :: appointment where
  "appt_cancelled =
     \<lparr>appointment_id = ''A0007'', patient_id = ''P0003'', appointment_type = ROOT_CANAL,
      scheduled_date = 63840909600000000, duration_minutes = 90, dentist_id = Some ''D002'',
      notes' = ''bring x-rays'', status = CANCELLED,
      created_at = 63840471300250000, updated_at = 63840571200000000,
      reminders_sent = [JDict [(''type'', JStr ''email''),
                               (''sent_at'', JStr ''2024-01-11T12:00:00'')]],
      treatment_notes = [JDict [(''note'', JStr ''sensitive''), (''dentist_id'', JStr ''D002''),
                                (''timestamp'', JStr ''2024-01-11T12:00:00'')]]\<rparr>"

text \<open>
  What \<^verbatim>\<open>isoformat\<close> writes for three points in time, and \<^verbatim>\<open>fromisoformat\<close> reading
  them back.
\<close>

definition iso_table :: "(datetime \<times> string) list" where
  "iso_table =
     [(63840909600000000, ''2024-01-15T10:00:00''),
      (63840471300250000, ''2024-01-10T08:15:00.250000''),
      (63840571200000000, ''2024-01-11T12:00:00'')]"

definition table_isoformat :: "datetime \<Rightarrow> string" where
  "table_isoformat d = (case dict_get iso_table d of Some s \<Rightarrow> s | None \<Rightarrow> [])"

definition table_fromisoformat :: "string \<Rightarrow> error + datetime" where
  "table_fromisoformat s =
     (case dict_get (map (\<lambda>(d, w). (w, d)) iso_table) s of
        Some d \<Rightarrow> Inr d
      | None \<Rightarrow> Inl ValueError)"

section \<open>Facts about the store and the conflict scan\<close>

lemma dict_get_set_same: "dict_get (dict_set s k v) k = Some v"
  by (induction s) auto

lemma dict_get_set_other: "k' \<noteq> k \<Longrightarrow> dict_get (dict_set s k v) k' = dict_get s k'"
  by (induction s) auto

lemma dict_set_twice: "dict_set (dict_set s k v) k v' = dict_set s k v'"
  by (induction s) auto

lemma dict_set_fresh: "k \<notin> fst ` set s \<Longrightarrow> dict_set s k v = s @ [(k, v)]"
  by (induction s) auto

lemma dict_get_in_values: "dict_get s k = Some v \<Longrightarrow> v \<in> set (dict_values s)"
  by (induction s) (auto simp: dict_values_def split: if_splits)

lemma values_dict_set_subset:
  "set (dict_values (dict_set s k v)) \<subseteq> insert v (set (dict_values s))"
proof (induction s)
  case Nil
  then show ?case by (simp add: dict_values_def)
next
  case (Cons p s)
  then show ?case by (cases p) (auto simp: dict_values_def)
qed

lemma conflict_scan_iff:
  "conflict_scan as sd et dent \<longleftrightarrow>
     (\<exists>a\<in>set as. active a \<and>
        \<not> (truthy dent \<and> truthy (dentist_id a) \<and> dentist_id a \<noteq> dent) \<and>
        sd < get_end_time a \<and> scheduled_date a < et)"
  by (induction as) (auto simp: active_def)

lemma has_conflict_iff:
  "has_conflict s sd dur dent \<longleftrightarrow>
     (\<exists>a\<in>set (dict_values s). active a \<and> conflict_rule sd dur dent a)"
  unfolding has_conflict_def Let_def conflict_scan_iff conflict_rule_def intervals_overlap_def
    get_end_time_def
  by blast

lemma overlap_is_intersection:
  assumes "0 < d1" and "0 < d2"
  shows "intervals_overlap s1 d1 s2 d2 \<longleftrightarrow>
           {s1 ..< s1 + timedelta_minutes d1} \<inter> {s2 ..< s2 + timedelta_minutes d2} \<noteq> {}"
  using assms by (auto simp: intervals_overlap_def timedelta_minutes_def)

lemma double_booked_sym: "double_booked a b \<Longrightarrow> double_booked b a"
  by (auto simp: double_booked_def intervals_overlap_def)

text \<open>
  The recursive \<open>conflict_free\<close> says that no two entries at different positions are
  double-booked.
\<close>

lemma conflict_free_pairs:
  "conflict_free xs \<longleftrightarrow>
     (\<forall>i<length xs. \<forall>j<length xs. i \<noteq> j \<longrightarrow> \<not> double_booked (xs ! i) (xs ! j))"
proof (induction xs)
  case Nil
  then show ?case by simp
next
  case (Cons a xs)
  show ?case
  proof
    assume L: "conflict_free (a # xs)"
    show "\<forall>i<length (a # xs). \<forall>j<length (a # xs). i \<noteq> j \<longrightarrow>
            \<not> double_booked ((a # xs) ! i) ((a # xs) ! j)"
    proof (intro allI impI)
      fix i j assume "i < length (a # xs)" "j < length (a # xs)" "i \<noteq> j"
      then show "\<not> double_booked ((a # xs) ! i) ((a # xs) ! j)"
        using L Cons.IH
        by (cases i; cases j) (auto dest: double_booked_sym)
    qed
  next
    assume R: "\<forall>i<length (a # xs). \<forall>j<length (a # xs). i \<noteq> j \<longrightarrow>
            \<not> double_booked ((a # xs) ! i) ((a # xs) ! j)"
    have "\<forall>b\<in>set xs. \<not> double_booked a b"
    proof
      fix b assume "b \<in> set xs"
      then obtain j where "j < length xs" "xs ! j = b" by (auto simp: in_set_conv_nth)
      then show "\<not> double_booked a b" using R [rule_format, of 0 "Suc j"] by simp
    qed
    moreover have "conflict_free xs"
      unfolding Cons.IH
    proof (intro allI impI)
      fix i j assume "i < length xs" "j < length xs" "i \<noteq> j"
      then show "\<not> double_booked (xs ! i) (xs ! j)"
        using R [rule_format, of "Suc i" "Suc j"] by simp
    qed
    ultimately show "conflict_free (a # xs)" by simp
  qed
qed

text \<open>
  Storing under any key an appointment that is double-booked with no stored one keeps
  the store conflict-free, whether the key is new or replaces an entry.
\<close>

lemma conflict_free_dict_set:
  assumes "conflict_free (dict_values s)"
    and "\<forall>b\<in>set (dict_values s). \<not> double_booked n b"
  shows "conflict_free (dict_values (dict_set s k n))"
  using assms
proof (induction s)
  case Nil
  then show ?case by (simp add: dict_values_def)
next
  case (Cons p s)
  obtain k' v' where p: "p = (k', v')" by (cases p)
  show ?case
  proof (cases "k' = k")
    case True
    with Cons.prems p show ?thesis by (simp add: dict_values_def)
  next
    case False
    have free: "conflict_free (dict_values s)"
      and nb: "\<forall>b\<in>set (dict_values s). \<not> double_booked n b"
      and v'n: "\<not> double_booked n v'"
      and v'rest: "\<forall>b\<in>set (dict_values s). \<not> double_booked v' b"
      using Cons.prems p by (simp_all add: dict_values_def)
    have IH: "conflict_free (dict_values (dict_set s k n))"
      using Cons.IH free nb by simp
    have "\<forall>b\<in>set (dict_values (dict_set s k n)). \<not> double_booked v' b"
      using values_dict_set_subset [of s k n] v'n v'rest double_booked_sym by blast
    with IH False p show ?thesis by (simp add: dict_values_def)
  qed
qed

lemma no_conflict_not_double_booked:
  assumes "\<not> has_conflict s sd dur dent"
    and "scheduled_date n = sd" "duration_minutes n = dur" "dentist_id n = dent"
  shows "\<forall>b\<in>set (dict_values s). \<not> double_booked n b"
proof
  fix b assume b: "b \<in> set (dict_values s)"
  show "\<not> double_booked n b"
  proof
    assume db: "double_booked n b"
    then have "active b \<and> conflict_rule sd dur dent b"
      using assms(2-4) by (auto simp: double_booked_def conflict_rule_def)
    with b assms(1) show False by (auto simp: has_conflict_iff)
  qed
qed

lemma apply_call_conflict_free:
  assumes "conflict_free (dict_values s)"
  shows "conflict_free (dict_values (apply_call s c))"
proof (cases c)
  case (Create pid ty sd dur dent nts t1 t2)
  show ?thesis
  proof (cases "has_conflict s sd dur dent")
    case True
    with Create assms show ?thesis by (simp add: create_appointment_def)
  next
    case False
    have "\<forall>b\<in>set (dict_values s).
            \<not> double_booked (Appointment (next_id s) pid ty sd dur dent nts t1 t2) b"
      by (rule no_conflict_not_double_booked [OF False]) (simp_all add: Appointment_def)
    with Create False assms show ?thesis
      by (simp add: create_appointment_def Let_def conflict_free_dict_set)
  qed
next
  case (Reschedule aid new_date now)
  show ?thesis
  proof (cases "get_appointment s aid")
    case None
    with Reschedule assms show ?thesis by (simp add: reschedule_appointment_def)
  next
    case (Some a)
    show ?thesis
    proof (cases "has_conflict s new_date (duration_minutes a) (dentist_id a)")
      case True
      with Reschedule Some assms show ?thesis by (simp add: reschedule_appointment_def)
    next
      case False
      have "\<forall>b\<in>set (dict_values s).
              \<not> double_booked (a\<lparr>scheduled_date := new_date, updated_at := now\<rparr>) b"
        by (rule no_conflict_not_double_booked [OF False]) simp_all
      with Reschedule Some False assms show ?thesis
        by (simp add: reschedule_appointment_def conflict_free_dict_set)
    qed
  qed
qed

lemma slots_empty_list:
  "get_available_slots [] date 60 dent =
     map (\<lambda>k. date_of date + timedelta_hours 9 + timedelta_minutes (30 * int k)) [0..<15]"
proof -
  have nc: "\<And>t. \<not> has_conflict [] t 60 dent"
    by (simp add: has_conflict_def dict_values_def)
  have up: "[0..<15] = [0,1,2,3,4,5,6,7,8,9,10,11,12,13,14::nat]"
    by (simp add: upt_rec)
  show ?thesis
    unfolding get_available_slots_def Let_def up
    by (simp add: slots_loop.simps [of "[]" 60] nc timedelta_minutes_def timedelta_hours_def)
qed

section \<open>Facts about the generated id\<close>

lemma decimal_value_snoc: "decimal_value (ds @ [c]) = 10 * decimal_value ds + digit_value c"
  by (simp add: decimal_value_def)

lemma digit_value_char_of: "d < 10 \<Longrightarrow> digit_value (char_of (48 + d)) = d"
  by (simp add: digit_value_def)

lemma decimal_nonempty: "decimal n \<noteq> []"
  by (subst decimal.simps) simp

text \<open>The digits that \<open>decimal\<close> writes denote the number written.\<close>

lemma decimal_value_decimal: "decimal_value (decimal n) = n"
proof (induction n rule: decimal.induct)
  case (1 n)
  show ?case
  proof (cases "n < 10")
    case True
    then show ?thesis
      by (subst decimal.simps) (simp add: decimal_value_def digit_value_char_of)
  next
    case False
    then have "decimal_value (decimal n) = 10 * decimal_value (decimal (n div 10)) + n mod 10"
      by (subst decimal.simps) (simp add: decimal_value_snoc digit_value_char_of)
    with 1 False show ?thesis by simp
  qed
qed

lemma decimal_value_zeros: "decimal_value (replicate k CHR ''0'' @ ds) = decimal_value ds"
proof -
  have "foldl (\<lambda>acc c. 10 * acc + digit_value c) 0 (replicate k CHR ''0'') = 0"
    by (induction k) (simp_all add: digit_value_def)
  then show ?thesis by (simp add: decimal_value_def)
qed

lemma decimal_value_format_04d: "decimal_value (format_04d n) = n"
  by (simp add: format_04d_def Let_def decimal_value_zeros decimal_value_decimal)

lemma format_04d_inj: "format_04d m = format_04d n \<Longrightarrow> m = n"
  by (metis decimal_value_format_04d)

lemma decimal_digits: "list_all is_digit (decimal n)"
proof (induction n rule: decimal.induct)
  case (1 n)
  show ?case
  proof (cases "n < 10")
    case True
    then show ?thesis by (subst decimal.simps) (simp add: is_digit_def)
  next
    case False
    have "n mod 10 < 10" by simp
    then have "is_digit (char_of (48 + n mod 10))"
      unfolding is_digit_def Let_def by simp
    with 1 False show ?thesis by (subst decimal.simps) simp
  qed
qed

lemma format_04d_digits: "list_all is_digit (format_04d n)"
  using decimal_digits [of n]
  by (auto simp: format_04d_def Let_def list_all_iff is_digit_def)

text \<open>A number below \<open>10 ^ k\<close> has at most \<open>k\<close> digits, one from \<open>10 ^ k\<close> on has more.\<close>

lemma decimal_length: "n < 10 ^ k \<Longrightarrow> 0 < k \<Longrightarrow> length (decimal n) \<le> k"
proof (induction n arbitrary: k rule: decimal.induct)
  case (1 n)
  show ?case
  proof (cases "n < 10")
    case True
    with 1 show ?thesis by (subst decimal.simps) simp
  next
    case False
    obtain k' where k: "k = Suc k'" using 1(3) by (cases k) auto
    have "k' > 0" using False 1(2) k by (cases k') auto
    moreover have "n div 10 < 10 ^ k'"
      using 1(2) k by (simp add: less_mult_imp_div_less mult.commute)
    ultimately have "length (decimal (n div 10)) \<le> k'" using 1(1) False by simp
    with False k show ?thesis by (subst decimal.simps) simp
  qed
qed

lemma decimal_length_ge: "10 ^ k \<le> n \<Longrightarrow> k < length (decimal n)"
proof (induction n arbitrary: k rule: decimal.induct)
  case (1 n)
  show ?case
  proof (cases "n < 10")
    case True
    from True 1(2) have "(10::nat) ^ k < 10 ^ 1" by simp
    then have "k < 1" by (rule power_less_imp_less_exp [rotated]) simp
    then show ?thesis using decimal_nonempty [of n] by simp
  next
    case False
    show ?thesis
    proof (cases k)
      case 0
      then show ?thesis using decimal_nonempty [of n] by simp
    next
      case (Suc k')
      with 1(2) have "10 ^ k' \<le> n div 10"
        by (simp add: less_eq_div_iff_mult_less_eq mult.commute)
      with 1(1) False have "k' < length (decimal (n div 10))" by simp
      with False Suc show ?thesis by (subst decimal.simps) simp
    qed
  qed
qed

lemma decimal_no_leading_zero: "0 < n \<Longrightarrow> hd (decimal n) \<noteq> CHR ''0''"
proof (induction n rule: decimal.induct)
  case (1 n)
  show ?case
  proof (cases "n < 10")
    case True
    have "(of_char (char_of (48 + n)) :: nat) = 48 + n"
      using True by simp
    moreover have "(of_char CHR ''0'' :: nat) = 48" by simp
    ultimately have "char_of (48 + n) \<noteq> CHR ''0''"
      using 1(2) by (metis add_cancel_right_right less_numeral_extra(3))
    then show ?thesis by (subst decimal.simps) (simp add: True)
  next
    case False
    then have "0 < n div 10" by (simp add: div_greater_zero_iff)
    with 1 False have "hd (decimal (n div 10)) \<noteq> CHR ''0''" by simp
    with False show ?thesis
      by (subst decimal.simps) (simp add: decimal_nonempty)
  qed
qed

text \<open>
  The format pads to four digits and never cuts: below 10000 the result has exactly four
  digits, and from 10000 on it is the plain decimal numeral.
\<close>

lemma format_04d_length4: "n < 10000 \<Longrightarrow> length (format_04d n) = 4"
  using decimal_length [of n 4] by (simp add: format_04d_def Let_def)

lemma format_04d_large: "10000 \<le> n \<Longrightarrow> format_04d n = decimal n"
  using decimal_length_ge [of 4 n] by (simp add: format_04d_def Let_def)

lemma format_04d_no_padding: "10000 \<le> n \<Longrightarrow> hd (format_04d n) \<noteq> CHR ''0''"
  by (simp add: format_04d_large decimal_no_leading_zero)

section \<open>The scheduling engine\<close>

text \<open>
  C1. Starting from a conflict-free store, after every sequence of sequential calls of
  \<^verbatim>\<open>create_appointment\<close> and \<^verbatim>\<open>reschedule_appointment\<close> the store is conflict-free:
  no two stored appointments that are both active (status neither cancelled nor no-show)
  and that share a dentist id, or of which one has dentist id \<^verbatim>\<open>None\<close>, have overlapping
  intervals.
\<close>

theorem no_double_booking:
  "conflict_free (dict_values s) \<Longrightarrow> conflict_free (dict_values (run_calls s cs))"
  by (induction cs arbitrary: s) (simp_all add: apply_call_conflict_free)

theorem no_double_booking_witness:
  "conflict_free (dict_values ([] :: store)) \<and>
   conflict_free (dict_values (run_calls []
     [Create ''P0001'' CLEANING 63840909600000000 60 None [] 1 2,
      Create ''P0002'' FILLING 63840911400000000 60 (Some ''D001'') [] 3 4,
      Create ''P0003'' FILLING 63840913200000000 30 (Some ''D001'') [] 5 6,
      Reschedule ''A0002'' 63840911400000000 7,
      Reschedule ''A0002'' 63840916800000000 8])) \<and>
   map fst (run_calls []
     [Create ''P0001'' CLEANING 63840909600000000 60 None [] 1 2,
      Create ''P0002'' FILLING 63840911400000000 60 (Some ''D001'') [] 3 4,
      Create ''P0003'' FILLING 63840913200000000 30 (Some ''D001'') [] 5 6,
      Reschedule ''A0002'' 63840911400000000 7,
      Reschedule ''A0002'' 63840916800000000 8]) = [''A0001'', ''A0002'']"
proof -
  have e: "conflict_free (dict_values ([] :: store))"
    by (simp add: dict_values_def)
  have r: "map fst (run_calls []
     [Create ''P0001'' CLEANING 63840909600000000 60 None [] 1 2,
      Create ''P0002'' FILLING 63840911400000000 60 (Some ''D001'') [] 3 4,
      Create ''P0003'' FILLING 63840913200000000 30 (Some ''D001'') [] 5 6,
      Reschedule ''A0002'' 63840911400000000 7,
      Reschedule ''A0002'' 63840916800000000 8]) = [''A0001'', ''A0002'']"
    by code_simp
  show ?thesis using e no_double_booking [OF e] r by blast
qed

text \<open>
  C2, as amended. For a stored appointment id, \<^verbatim>\<open>reschedule_appointment\<close> checks the new
  start, with the appointment's own duration and dentist, against every active stored
  appointment, the appointment being rescheduled included: it returns false and leaves
  the store as it is when one of them conflicts, and otherwise sets the start and
  \<^verbatim>\<open>updated_at\<close> and returns true. So an active appointment is never moved to a start
  whose interval overlaps its own current interval.
\<close>

theorem reschedule_counts_itself:
  assumes "get_appointment s aid = Some a"
  shows "reschedule_appointment s aid new_date now =
           (if \<exists>b\<in>set (dict_values s). active b \<and>
                 conflict_rule new_date (duration_minutes a) (dentist_id a) b
            then (s, False)
            else (dict_set s aid (a\<lparr>scheduled_date := new_date, updated_at := now\<rparr>), True)) \<and>
         (active a \<and>
          intervals_overlap new_date (duration_minutes a) (scheduled_date a) (duration_minutes a)
            \<longrightarrow> reschedule_appointment s aid new_date now = (s, False))"
proof -
  have mem: "a \<in> set (dict_values s)"
    using assms by (simp add: get_appointment_def dict_get_in_values)
  have self: "active a \<Longrightarrow>
      intervals_overlap new_date (duration_minutes a) (scheduled_date a) (duration_minutes a) \<Longrightarrow>
      \<exists>b\<in>set (dict_values s). active b \<and>
        conflict_rule new_date (duration_minutes a) (dentist_id a) b"
    using mem by (auto simp: conflict_rule_def)
  show ?thesis
    using assms self by (simp add: reschedule_appointment_def has_conflict_iff)
qed

theorem reschedule_counts_itself_witness:
  "get_appointment [(''A0001'', appt_1000), (''A0002'', appt_1100)] ''A0002'' = Some appt_1100 \<and>
   reschedule_appointment [(''A0001'', appt_1000), (''A0002'', appt_1100)] ''A0002''
       63840916800000000 63840826800000000 =
     ([(''A0001'', appt_1000),
       (''A0002'', appt_1100\<lparr>scheduled_date := 63840916800000000,
                             updated_at := 63840826800000000\<rparr>)], True) \<and>
   reschedule_appointment [(''A0001'', appt_1000), (''A0002'', appt_1100)] ''A0002''
       63840911400000000 63840826800000000 =
     ([(''A0001'', appt_1000), (''A0002'', appt_1100)], False)"
proof -
  have g: "get_appointment [(''A0001'', appt_1000), (''A0002'', appt_1100)] ''A0002''
             = Some appt_1100"
    by (simp add: get_appointment_def)
  show ?thesis
    using g reschedule_counts_itself [OF g, of 63840916800000000 63840826800000000]
      reschedule_counts_itself [OF g, of 63840911400000000 63840826800000000]
    by (simp add: dict_values_def active_def conflict_rule_def intervals_overlap_def
        timedelta_minutes_def appt_1000_def appt_1100_def Appointment_def)
qed

text \<open>
  C2 as stated fails: the store holds one appointment, scheduled at 10:00 for 60 minutes,
  and moving it to 10:30, which overlaps nothing but its own interval, is rejected.
\<close>

theorem reschedule_self_overlap_rejected:
  "reschedule_appointment [(''A0001'', appt_1000)] ''A0001''
       63840911400000000 63840826800000000 =
     ([(''A0001'', appt_1000)], False)"
  by (simp add: reschedule_appointment_def get_appointment_def has_conflict_def
      dict_values_def appt_1000_def Appointment_def get_end_time_def timedelta_minutes_def)

text \<open>
  C3, as amended. For every date and every dentist argument,
  \<^verbatim>\<open>get_available_slots(date, 60)\<close> on the empty store returns exactly 15 slots, at 09:00,
  09:30 and so on through 16:00 of that day, in chronological order, each ending no later
  than 17:00.
\<close>

theorem slots_empty_store:
  "get_available_slots [] date 60 dent =
     map (\<lambda>k. date_of date + timedelta_hours 9 + timedelta_minutes (30 * int k)) [0..<15] \<and>
   length (get_available_slots [] date 60 dent) = 15 \<and>
   hd (get_available_slots [] date 60 dent) = date_of date + timedelta_hours 9 \<and>
   last (get_available_slots [] date 60 dent) = date_of date + timedelta_hours 16 \<and>
   (\<forall>t\<in>set (get_available_slots [] date 60 dent).
      t + timedelta_minutes 60 \<le> date_of date + timedelta_hours 17) \<and>
   sorted_wrt (<) (get_available_slots [] date 60 dent)"
proof -
  have up: "[0..<15] = [0,1,2,3,4,5,6,7,8,9,10,11,12,13,14::nat]"
    by (simp add: upt_rec)
  show ?thesis
    unfolding slots_empty_list up
    by (simp add: timedelta_minutes_def timedelta_hours_def)
qed

theorem slots_empty_store_witness:
  "length (get_available_slots [] 63840926730000000 60 None) = 15 \<and>
   hd (get_available_slots [] 63840926730000000 60 None) = 63840906000000000 \<and>
   last (get_available_slots [] 63840926730000000 60 None) = 63840931200000000"
  using slots_empty_store [of 63840926730000000 None, THEN conjunct2]
  by (simp add: date_of_def timedelta_hours_def)

text \<open>
  C3 as stated fails: on 2024-01-15 the empty store does not give 16 slots.
\<close>

theorem slots_empty_store_not_16:
  "length (get_available_slots [] 63840926730000000 60 None) \<noteq> 16"
  by (simp add: slots_empty_list)

text \<open>
  C4. The conflict test that \<^verbatim>\<open>create_appointment\<close>, \<^verbatim>\<open>reschedule_appointment\<close> and
  \<^verbatim>\<open>get_available_slots\<close> all make through \<^verbatim>\<open>_has_conflict\<close> holds between a candidate
  \<open>b\<close> and an active stored appointment \<open>a\<close> exactly when their intervals overlap and it
  is not the case that both have a dentist id assigned and the two ids differ; so a
  missing dentist id on either side never exempts an overlapping pair. Over a whole
  store the scan reports a conflict exactly when some active stored appointment is in
  that relation to the request. A dentist id is assigned when Python's truth test holds
  of it (neither \<^verbatim>\<open>None\<close> nor empty), and the overlap test is that each interval starts
  before the other ends, which for positive durations is that the two half-open
  intervals share a point.
\<close>

theorem conflict_predicate:
  "(has_conflict [(k, a)] (scheduled_date b) (duration_minutes b) (dentist_id b) \<longleftrightarrow>
      active a \<and>
      intervals_overlap (scheduled_date b) (duration_minutes b)
        (scheduled_date a) (duration_minutes a) \<and>
      \<not> (truthy (dentist_id b) \<and> truthy (dentist_id a) \<and> dentist_id a \<noteq> dentist_id b)) \<and>
   (has_conflict s sd dur dent \<longleftrightarrow>
      (\<exists>x\<in>set (dict_values s). active x \<and>
         intervals_overlap sd dur (scheduled_date x) (duration_minutes x) \<and>
         \<not> (truthy dent \<and> truthy (dentist_id x) \<and> dentist_id x \<noteq> dent))) \<and>
   (0 < duration_minutes a \<and> 0 < duration_minutes b \<longrightarrow>
      (intervals_overlap (scheduled_date b) (duration_minutes b)
         (scheduled_date a) (duration_minutes a) \<longleftrightarrow>
       {scheduled_date b ..< scheduled_date b + timedelta_minutes (duration_minutes b)} \<inter>
       {scheduled_date a ..< scheduled_date a + timedelta_minutes (duration_minutes a)} \<noteq> {}))"
proof (intro conjI)
  show "has_conflict [(k, a)] (scheduled_date b) (duration_minutes b) (dentist_id b) \<longleftrightarrow>
      active a \<and>
      intervals_overlap (scheduled_date b) (duration_minutes b)
        (scheduled_date a) (duration_minutes a) \<and>
      \<not> (truthy (dentist_id b) \<and> truthy (dentist_id a) \<and> dentist_id a \<noteq> dentist_id b)"
    by (simp add: has_conflict_iff conflict_rule_def dict_values_def)
  show "has_conflict s sd dur dent \<longleftrightarrow>
      (\<exists>x\<in>set (dict_values s). active x \<and>
         intervals_overlap sd dur (scheduled_date x) (duration_minutes x) \<and>
         \<not> (truthy dent \<and> truthy (dentist_id x) \<and> dentist_id x \<noteq> dent))"
    by (simp add: has_conflict_iff conflict_rule_def)
  show "0 < duration_minutes a \<and> 0 < duration_minutes b \<longrightarrow>
      (intervals_overlap (scheduled_date b) (duration_minutes b)
         (scheduled_date a) (duration_minutes a) \<longleftrightarrow>
       {scheduled_date b ..< scheduled_date b + timedelta_minutes (duration_minutes b)} \<inter>
       {scheduled_date a ..< scheduled_date a + timedelta_minutes (duration_minutes a)} \<noteq> {})"
    using overlap_is_intersection by blast
qed

theorem conflict_predicate_witness:
  "has_conflict [(''A0001'', appt_1000)] 63840911400000000 60 (Some ''D001'') \<and>
   \<not> has_conflict [(''A0002'', appt_1100)] 63840913200000000 30 (Some ''D002'') \<and>
   has_conflict [(''A0002'', appt_1100)] 63840913200000000 30 (Some []) \<and>
   0 < duration_minutes appt_1000 \<and> 0 < duration_minutes appt_1100 \<and>
   {scheduled_date appt_1100 ..<
      scheduled_date appt_1100 + timedelta_minutes (duration_minutes appt_1100)} \<inter>
   {scheduled_date appt_1000 ..<
      scheduled_date appt_1000 + timedelta_minutes (duration_minutes appt_1000)} = {}"
proof -
  have pos: "0 < duration_minutes appt_1000 \<and> 0 < duration_minutes appt_1100"
    by (simp add: appt_1000_def appt_1100_def Appointment_def)
  have apart: "\<not> intervals_overlap (scheduled_date appt_1100) (duration_minutes appt_1100)
                   (scheduled_date appt_1000) (duration_minutes appt_1000)"
    by (simp add: intervals_overlap_def timedelta_minutes_def appt_1000_def appt_1100_def
        Appointment_def)
  have a: "has_conflict [(''A0001'', appt_1000)] 63840911400000000 60 (Some ''D001'')"
    using conflict_predicate [of _ _ _ "[(''A0001'', appt_1000)]" 63840911400000000 60
        "Some ''D001''", THEN conjunct2, THEN conjunct1]
    by (simp add: dict_values_def active_def intervals_overlap_def timedelta_minutes_def
        appt_1000_def Appointment_def)
  have b: "\<not> has_conflict [(''A0002'', appt_1100)] 63840913200000000 30 (Some ''D002'')"
    using conflict_predicate [of _ _ _ "[(''A0002'', appt_1100)]" 63840913200000000 30
        "Some ''D002''", THEN conjunct2, THEN conjunct1]
    by (simp add: dict_values_def active_def intervals_overlap_def timedelta_minutes_def
        appt_1100_def Appointment_def)
  have c: "has_conflict [(''A0002'', appt_1100)] 63840913200000000 30 (Some [])"
    using conflict_predicate [of _ _ _ "[(''A0002'', appt_1100)]" 63840913200000000 30
        "Some []", THEN conjunct2, THEN conjunct1]
    by (simp add: dict_values_def active_def intervals_overlap_def timedelta_minutes_def
        appt_1100_def Appointment_def)
  have d: "{scheduled_date appt_1100 ..<
      scheduled_date appt_1100 + timedelta_minutes (duration_minutes appt_1100)} \<inter>
   {scheduled_date appt_1000 ..<
      scheduled_date appt_1000 + timedelta_minutes (duration_minutes appt_1000)} = {}"
    using conflict_predicate [of _ appt_1000 appt_1100, THEN conjunct2, THEN conjunct2]
      pos apart by blast
  show ?thesis using pos a b c d by blast
qed

text \<open>
  C5. For a stored appointment id, \<^verbatim>\<open>cancel_appointment(id, reason)\<close> returns true exactly
  when the current time is strictly more than 24 hours before the scheduled start. It
  then sets the status to cancelled and appends to the notes a line break followed by
  \<^verbatim>\<open>Cancelled: \<close> and the reason (by \<^verbatim>\<open>Cancelled\<close> alone when the reason is empty), and
  otherwise changes nothing. An appointment that starts 23 hours from now is rejected,
  one that starts 25 hours from now is accepted, and an id that is not stored gives
  false.
\<close>

theorem cancel_guard:
  "(get_appointment s aid = None \<longrightarrow> cancel_appointment s aid reason now now' = (s, False)) \<and>
   (\<forall>a. get_appointment s aid = Some a \<longrightarrow>
      (snd (cancel_appointment s aid reason now now') \<longleftrightarrow>
         now + timedelta_hours 24 < scheduled_date a) \<and>
      (now + timedelta_hours 24 < scheduled_date a \<longrightarrow>
         cancel_appointment s aid reason now now' =
           (dict_set s aid (a\<lparr>status := CANCELLED, updated_at := now',
              notes' := notes' a @
                (if reason = [] then [CHR 0x0A] @ ''Cancelled''
                 else [CHR 0x0A] @ ''Cancelled: '' @ reason)\<rparr>), True)) \<and>
      (\<not> now + timedelta_hours 24 < scheduled_date a \<longrightarrow>
         cancel_appointment s aid reason now now' = (s, False)) \<and>
      (scheduled_date a = now + timedelta_hours 23 \<longrightarrow>
         \<not> snd (cancel_appointment s aid reason now now')) \<and>
      (scheduled_date a = now + timedelta_hours 25 \<longrightarrow>
         snd (cancel_appointment s aid reason now now')))"
  by (auto simp: cancel_appointment_def can_be_cancelled_def update_status_def Let_def
      timedelta_hours_def cancel_note_def)

theorem cancel_guard_witness:
  "get_appointment [(''A0001'', appt_1000)] ''A0001'' = Some appt_1000 \<and>
   scheduled_date appt_1000 = 63840826800000000 + timedelta_hours 23 \<and>
   \<not> snd (cancel_appointment [(''A0001'', appt_1000)] ''A0001'' ''flu''
            63840826800000000 63840826800000001) \<and>
   scheduled_date appt_1000 = 63840819600000000 + timedelta_hours 25 \<and>
   cancel_appointment [(''A0001'', appt_1000)] ''A0001'' ''flu''
       63840819600000000 63840819600000001 =
     ([(''A0001'', appt_1000\<lparr>status := CANCELLED, updated_at := 63840819600000001,
          notes' := [CHR 0x0A] @ ''Cancelled: flu''\<rparr>)], True) \<and>
   cancel_appointment [(''A0001'', appt_1000)] ''A0001'' ''moved away''
       63840819600000000 63840819600000001 =
     ([(''A0001'', appt_1000\<lparr>status := CANCELLED, updated_at := 63840819600000001,
          notes' := [CHR 0x0A] @ ''Cancelled: moved away''\<rparr>)], True) \<and>
   cancel_appointment [(''A0001'', appt_1000)] ''A0001'' []
       63840819600000000 63840819600000001 =
     ([(''A0001'', appt_1000\<lparr>status := CANCELLED, updated_at := 63840819600000001,
          notes' := [CHR 0x0A] @ ''Cancelled''\<rparr>)], True) \<and>
   get_appointment [(''A0001'', appt_1000)] ''A0009'' = None \<and>
   cancel_appointment [(''A0001'', appt_1000)] ''A0009'' ''flu''
       63840819600000000 63840819600000001 =
     ([(''A0001'', appt_1000)], False)"
proof -
  have g: "get_appointment [(''A0001'', appt_1000)] ''A0001'' = Some appt_1000"
    by (simp add: get_appointment_def)
  have n: "get_appointment [(''A0001'', appt_1000)] ''A0009'' = None"
    by (simp add: get_appointment_def)
  have t23: "scheduled_date appt_1000 = 63840826800000000 + timedelta_hours 23"
    by (simp add: appt_1000_def Appointment_def timedelta_hours_def)
  have t25: "scheduled_date appt_1000 = 63840819600000000 + timedelta_hours 25"
    by (simp add: appt_1000_def Appointment_def timedelta_hours_def)
  have empty: "notes' appt_1000 = []"
    by (simp add: appt_1000_def Appointment_def)
  have early: "63840819600000000 + timedelta_hours 24 < scheduled_date appt_1000"
    by (simp add: appt_1000_def Appointment_def timedelta_hours_def)
  have late: "\<not> snd (cancel_appointment [(''A0001'', appt_1000)] ''A0001'' ''flu''
            63840826800000000 63840826800000001)"
    using cancel_guard [of "[(''A0001'', appt_1000)]" "''A0001''" "''flu''"
        63840826800000000 63840826800000001] g t23
    by blast
  have flu: "cancel_appointment [(''A0001'', appt_1000)] ''A0001'' ''flu''
       63840819600000000 63840819600000001 =
     ([(''A0001'', appt_1000\<lparr>status := CANCELLED, updated_at := 63840819600000001,
          notes' := [CHR 0x0A] @ ''Cancelled: flu''\<rparr>)], True)"
    using cancel_guard [of "[(''A0001'', appt_1000)]" "''A0001''" "''flu''"
        63840819600000000 63840819600000001] g early
    by (simp add: empty)
  have moved: "cancel_appointment [(''A0001'', appt_1000)] ''A0001'' ''moved away''
       63840819600000000 63840819600000001 =
     ([(''A0001'', appt_1000\<lparr>status := CANCELLED, updated_at := 63840819600000001,
          notes' := [CHR 0x0A] @ ''Cancelled: moved away''\<rparr>)], True)"
    using cancel_guard [of "[(''A0001'', appt_1000)]" "''A0001''" "''moved away''"
        63840819600000000 63840819600000001] g early
    by (simp add: empty)
  have silent: "cancel_appointment [(''A0001'', appt_1000)] ''A0001'' []
       63840819600000000 63840819600000001 =
     ([(''A0001'', appt_1000\<lparr>status := CANCELLED, updated_at := 63840819600000001,
          notes' := [CHR 0x0A] @ ''Cancelled''\<rparr>)], True)"
    using cancel_guard [of "[(''A0001'', appt_1000)]" "''A0001''" "[]"
        63840819600000000 63840819600000001] g early
    by (simp add: empty)
  have missing: "cancel_appointment [(''A0001'', appt_1000)] ''A0009'' ''flu''
       63840819600000000 63840819600000001 = ([(''A0001'', appt_1000)], False)"
    using cancel_guard [of "[(''A0001'', appt_1000)]" "''A0009''" "''flu''"
        63840819600000000 63840819600000001] n
    by blast
  show ?thesis using g n t23 t25 late flu moved silent missing by blast
qed

text \<open>
  C6. When the requested interval conflicts, under the conflict rule, with some stored
  active appointment, \<^verbatim>\<open>create_appointment\<close> returns \<^verbatim>\<open>None\<close> and the store is
  unchanged (so no appointment is created, no id is used up and no field is touched).
  When it conflicts with none, the call returns a new appointment with status scheduled
  and stores it under its id; every other id keeps its appointment. The id is the next
  in sequence: the letter \<^verbatim>\<open>A\<close> followed by decimal digits that denote the number of
  stored appointments plus one, exactly four of them (zero-padded) while that number is
  below 10000 and with no leading zero from 10000 on. When the id was not in use the new
  entry is added at the end, and the id after it denotes one more and differs from it.
  Stores of different sizes never give the same next id.
\<close>

theorem create_conflict_or_insert:
  "((\<exists>x\<in>set (dict_values s). active x \<and> conflict_rule sd dur dent x) \<longrightarrow>
      create_appointment s pid ty sd dur dent nts t1 t2 = (s, None)) \<and>
   (\<not> (\<exists>x\<in>set (dict_values s). active x \<and> conflict_rule sd dur dent x) \<longrightarrow>
      (\<exists>a s'. create_appointment s pid ty sd dur dent nts t1 t2 = (s', Some a) \<and>
         a = Appointment (next_id s) pid ty sd dur dent nts t1 t2 \<and>
         status a = SCHEDULED \<and>
         appointment_id a = CHR ''A'' # format_04d (length s + 1) \<and>
         hd (appointment_id a) = CHR ''A'' \<and>
         list_all is_digit (tl (appointment_id a)) \<and>
         decimal_value (tl (appointment_id a)) = length s + 1 \<and>
         (length s + 1 < 10000 \<longrightarrow> length (tl (appointment_id a)) = 4) \<and>
         (10000 \<le> length s + 1 \<longrightarrow> hd (tl (appointment_id a)) \<noteq> CHR ''0'') \<and>
         dict_get s' (appointment_id a) = Some a \<and>
         (\<forall>k. k \<noteq> appointment_id a \<longrightarrow> dict_get s' k = dict_get s k) \<and>
         (appointment_id a \<notin> fst ` set s \<longrightarrow>
            s' = s @ [(appointment_id a, a)] \<and>
            next_id s' = CHR ''A'' # format_04d (length s + 2) \<and>
            decimal_value (tl (next_id s')) = length s + 2 \<and>
            next_id s' \<noteq> appointment_id a))) \<and>
   (next_id s = next_id u \<longleftrightarrow> length s = length u)"
proof (intro conjI impI)
  assume "\<exists>x\<in>set (dict_values s). active x \<and> conflict_rule sd dur dent x"
  then show "create_appointment s pid ty sd dur dent nts t1 t2 = (s, None)"
    by (simp add: create_appointment_def has_conflict_iff)
next
  assume free: "\<not> (\<exists>x\<in>set (dict_values s). active x \<and> conflict_rule sd dur dent x)"
  define a where "a = Appointment (next_id s) pid ty sd dur dent nts t1 t2"
  define s' where "s' = dict_set s (next_id s) a"
  have id: "appointment_id a = CHR ''A'' # format_04d (length s + 1)"
    by (simp add: a_def Appointment_def next_id_def)
  have res: "create_appointment s pid ty sd dur dent nts t1 t2 = (s', Some a)"
    using free by (simp add: create_appointment_def has_conflict_iff Let_def a_def s'_def)
  have s'id: "s' = dict_set s (appointment_id a) a"
    by (simp add: s'_def a_def Appointment_def)
  have fresh: "appointment_id a \<notin> fst ` set s \<longrightarrow>
            s' = s @ [(appointment_id a, a)] \<and>
            next_id s' = CHR ''A'' # format_04d (length s + 2) \<and>
            decimal_value (tl (next_id s')) = length s + 2 \<and>
            next_id s' \<noteq> appointment_id a"
  proof
    assume "appointment_id a \<notin> fst ` set s"
    then have app: "s' = s @ [(appointment_id a, a)]"
      unfolding s'id by (rule dict_set_fresh)
    then have n: "next_id s' = CHR ''A'' # format_04d (length s + 2)"
      by (simp add: next_id_def)
    have "format_04d (length s + 2) \<noteq> format_04d (length s + 1)"
      using format_04d_inj [of "length s + 2" "length s + 1"] by auto
    with app n id show "s' = s @ [(appointment_id a, a)] \<and>
            next_id s' = CHR ''A'' # format_04d (length s + 2) \<and>
            decimal_value (tl (next_id s')) = length s + 2 \<and>
            next_id s' \<noteq> appointment_id a"
      by (simp add: decimal_value_format_04d)
  qed
  have "a = Appointment (next_id s) pid ty sd dur dent nts t1 t2 \<and>
         status a = SCHEDULED \<and>
         appointment_id a = CHR ''A'' # format_04d (length s + 1) \<and>
         hd (appointment_id a) = CHR ''A'' \<and>
         list_all is_digit (tl (appointment_id a)) \<and>
         decimal_value (tl (appointment_id a)) = length s + 1 \<and>
         (length s + 1 < 10000 \<longrightarrow> length (tl (appointment_id a)) = 4) \<and>
         (10000 \<le> length s + 1 \<longrightarrow> hd (tl (appointment_id a)) \<noteq> CHR ''0'') \<and>
         dict_get s' (appointment_id a) = Some a \<and>
         (\<forall>k. k \<noteq> appointment_id a \<longrightarrow> dict_get s' k = dict_get s k)"
    unfolding id
    by (simp add: a_def [symmetric] format_04d_digits decimal_value_format_04d
        format_04d_length4 format_04d_no_padding s'id id dict_get_set_same dict_get_set_other)
       (simp add: a_def Appointment_def)
  with res fresh show "\<exists>a s'. create_appointment s pid ty sd dur dent nts t1 t2 = (s', Some a) \<and>
         a = Appointment (next_id s) pid ty sd dur dent nts t1 t2 \<and>
         status a = SCHEDULED \<and>
         appointment_id a = CHR ''A'' # format_04d (length s + 1) \<and>
         hd (appointment_id a) = CHR ''A'' \<and>
         list_all is_digit (tl (appointment_id a)) \<and>
         decimal_value (tl (appointment_id a)) = length s + 1 \<and>
         (length s + 1 < 10000 \<longrightarrow> length (tl (appointment_id a)) = 4) \<and>
         (10000 \<le> length s + 1 \<longrightarrow> hd (tl (appointment_id a)) \<noteq> CHR ''0'') \<and>
         dict_get s' (appointment_id a) = Some a \<and>
         (\<forall>k. k \<noteq> appointment_id a \<longrightarrow> dict_get s' k = dict_get s k) \<and>
         (appointment_id a \<notin> fst ` set s \<longrightarrow>
            s' = s @ [(appointment_id a, a)] \<and>
            next_id s' = CHR ''A'' # format_04d (length s + 2) \<and>
            decimal_value (tl (next_id s')) = length s + 2 \<and>
            next_id s' \<noteq> appointment_id a)"
    by blast
next
  show "next_id s = next_id u \<longleftrightarrow> length s = length u"
    using format_04d_inj [of "length s + 1" "length u + 1"] by (auto simp: next_id_def)
qed

theorem create_conflict_or_insert_witness:
  "create_appointment [(''A0001'', appt_1000)] ''P0002'' FILLING 63840911400000000 60
       (Some ''D001'') ''first visit'' 63840571200000000 63840571200000001 =
     ([(''A0001'', appt_1000)], None) \<and>
   create_appointment [(''A0001'', appt_1000)] ''P0002'' FILLING 63840913200000000 60
       (Some ''D001'') ''first visit'' 63840571200000000 63840571200000001 =
     ([(''A0001'', appt_1000),
       (''A0002'', Appointment ''A0002'' ''P0002'' FILLING 63840913200000000 60 (Some ''D001'')
          ''first visit'' 63840571200000000 63840571200000001)],
      Some (Appointment ''A0002'' ''P0002'' FILLING 63840913200000000 60 (Some ''D001'')
          ''first visit'' 63840571200000000 63840571200000001)) \<and>
   decimal_value ''0002'' = 2 \<and>
   next_id (fst (create_appointment [(''A0001'', appt_1000)] ''P0002'' FILLING
       63840913200000000 60 (Some ''D001'') ''first visit'' 63840571200000000
       63840571200000001)) = ''A0003'' \<and>
   format_04d 10 = ''0010'' \<and>
   format_04d 12345 = ''12345''"
proof -
  have busy: "\<exists>x\<in>set (dict_values [(''A0001'', appt_1000)]).
      active x \<and> conflict_rule 63840911400000000 60 (Some ''D001'') x"
    by (simp add: dict_values_def active_def conflict_rule_def intervals_overlap_def
        timedelta_minutes_def appt_1000_def Appointment_def)
  have free: "\<not> (\<exists>x\<in>set (dict_values [(''A0001'', appt_1000)]).
      active x \<and> conflict_rule 63840913200000000 60 (Some ''D001'') x)"
    by (simp add: dict_values_def active_def conflict_rule_def intervals_overlap_def
        timedelta_minutes_def appt_1000_def Appointment_def)
  have id2: "next_id [(''A0001'', appt_1000)] = ''A0002''"
    by code_simp
  have f10: "format_04d 10 = ''0010''"
    by code_simp
  have f12345: "format_04d 12345 = ''12345''"
    by (simp add: format_04d_def decimal.simps) code_simp
  have rejected: "create_appointment [(''A0001'', appt_1000)] ''P0002'' FILLING
       63840911400000000 60 (Some ''D001'') ''first visit'' 63840571200000000
       63840571200000001 = ([(''A0001'', appt_1000)], None)"
    using create_conflict_or_insert [of "[(''A0001'', appt_1000)]" 63840911400000000 60
        "Some ''D001''" "''P0002''" FILLING "''first visit''" 63840571200000000
        63840571200000001] busy
    by blast
  have fresh: "''A0002'' \<notin> fst ` set [(''A0001'', appt_1000)]"
    by simp
  have accepted: "create_appointment [(''A0001'', appt_1000)] ''P0002'' FILLING
       63840913200000000 60 (Some ''D001'') ''first visit'' 63840571200000000
       63840571200000001 =
     ([(''A0001'', appt_1000),
       (''A0002'', Appointment ''A0002'' ''P0002'' FILLING 63840913200000000 60 (Some ''D001'')
          ''first visit'' 63840571200000000 63840571200000001)],
      Some (Appointment ''A0002'' ''P0002'' FILLING 63840913200000000 60 (Some ''D001'')
          ''first visit'' 63840571200000000 63840571200000001))"
  proof -
    obtain a s' where r: "create_appointment [(''A0001'', appt_1000)] ''P0002'' FILLING
          63840913200000000 60 (Some ''D001'') ''first visit'' 63840571200000000
          63840571200000001 = (s', Some a)"
      and a: "a = Appointment (next_id [(''A0001'', appt_1000)]) ''P0002'' FILLING
          63840913200000000 60 (Some ''D001'') ''first visit'' 63840571200000000
          63840571200000001"
      and app: "appointment_id a \<notin> fst ` set [(''A0001'', appt_1000)] \<longrightarrow>
          s' = [(''A0001'', appt_1000)] @ [(appointment_id a, a)]"
      using create_conflict_or_insert [of "[(''A0001'', appt_1000)]" 63840913200000000 60
          "Some ''D001''" "''P0002''" FILLING "''first visit''" 63840571200000000
          63840571200000001, THEN conjunct2, THEN conjunct1] free
      by blast
    have aid: "appointment_id a = ''A0002''"
      unfolding a id2 by (simp add: Appointment_def)
    have "s' = [(''A0001'', appt_1000)] @ [(''A0002'', a)]"
      using app fresh unfolding aid by blast
    with r a show ?thesis unfolding id2 by simp
  qed
  have value2: "decimal_value ''0002'' = 2"
    by (simp add: decimal_value_def digit_value_def)
  have third: "next_id (fst (create_appointment [(''A0001'', appt_1000)] ''P0002'' FILLING
       63840913200000000 60 (Some ''D001'') ''first visit'' 63840571200000000
       63840571200000001)) = ''A0003''"
    unfolding accepted fst_conv by code_simp
  show ?thesis using rejected accepted value2 third f10 f12345 by blast
qed

text \<open>
  C10. \<^verbatim>\<open>cancel_appointment\<close> does not look at the status: for a stored appointment that
  starts more than 24 hours after now, whatever its status (also cancelled, completed or
  no-show), the call returns true, sets the status to cancelled and appends a
  cancellation line to the notes, which grow by it; a second successful call appends a
  second line after the first.
\<close>

theorem cancel_ignores_status:
  assumes "get_appointment s aid = Some a"
    and "now + timedelta_hours 24 < scheduled_date a"
  shows "cancel_appointment s aid r1 now now' =
           (dict_set s aid (a\<lparr>status := CANCELLED, updated_at := now',
              notes' := notes' a @ cancel_note r1\<rparr>), True) \<and>
         (now2 + timedelta_hours 24 < scheduled_date a \<longrightarrow>
            cancel_appointment (fst (cancel_appointment s aid r1 now now')) aid r2 now2 now2' =
              (dict_set s aid (a\<lparr>status := CANCELLED, updated_at := now2',
                 notes' := notes' a @ cancel_note r1 @ cancel_note r2\<rparr>), True)) \<and>
         length (notes' a) < length (notes' a @ cancel_note r1)"
  using assms
  by (auto simp: cancel_appointment_def can_be_cancelled_def update_status_def Let_def
      get_appointment_def dict_get_set_same dict_set_twice cancel_note_def)

theorem cancel_ignores_status_witness:
  "status appt_cancelled = CANCELLED \<and>
   get_appointment [(''A0007'', appt_cancelled)] ''A0007'' = Some appt_cancelled \<and>
   63840571200000000 + timedelta_hours 24 < scheduled_date appt_cancelled \<and>
   cancel_appointment [(''A0007'', appt_cancelled)] ''A0007'' [] 63840571200000000
       63840571200000001 =
     ([(''A0007'', appt_cancelled\<lparr>updated_at := 63840571200000001,
          notes' := ''bring x-rays'' @ [CHR 0x0A] @ ''Cancelled''\<rparr>)], True) \<and>
   cancel_appointment
       (fst (cancel_appointment [(''A0007'', appt_cancelled)] ''A0007'' [] 63840571200000000
               63840571200000001))
       ''A0007'' ''again'' 63840571200000002 63840571200000003 =
     ([(''A0007'', appt_cancelled\<lparr>updated_at := 63840571200000003,
          notes' := ''bring x-rays'' @ [CHR 0x0A] @ ''Cancelled'' @ [CHR 0x0A]
            @ ''Cancelled: again''\<rparr>)], True)"
proof -
  have st: "status appt_cancelled = CANCELLED"
    by (simp add: appt_cancelled_def)
  have g: "get_appointment [(''A0007'', appt_cancelled)] ''A0007'' = Some appt_cancelled"
    by (simp add: get_appointment_def)
  have far: "63840571200000000 + timedelta_hours 24 < scheduled_date appt_cancelled"
    by (simp add: appt_cancelled_def timedelta_hours_def)
  have far2: "63840571200000002 + timedelta_hours 24 < scheduled_date appt_cancelled"
    by (simp add: appt_cancelled_def timedelta_hours_def)
  have once: "cancel_appointment [(''A0007'', appt_cancelled)] ''A0007'' [] 63840571200000000
       63840571200000001 =
     ([(''A0007'', appt_cancelled\<lparr>updated_at := 63840571200000001,
          notes' := ''bring x-rays'' @ [CHR 0x0A] @ ''Cancelled''\<rparr>)], True)"
    using cancel_ignores_status [OF g far, of "[]" 63840571200000001, THEN conjunct1]
    by (simp add: appt_cancelled_def cancel_note_def)
  have twice: "cancel_appointment
       (fst (cancel_appointment [(''A0007'', appt_cancelled)] ''A0007'' [] 63840571200000000
               63840571200000001))
       ''A0007'' ''again'' 63840571200000002 63840571200000003 =
     ([(''A0007'', appt_cancelled\<lparr>updated_at := 63840571200000003,
          notes' := ''bring x-rays'' @ [CHR 0x0A] @ ''Cancelled'' @ [CHR 0x0A]
            @ ''Cancelled: again''\<rparr>)], True)"
    using cancel_ignores_status [OF g far, of "[]" 63840571200000001 63840571200000002
        "''again''" 63840571200000003, THEN conjunct2, THEN conjunct1] far2
    by (simp add: appt_cancelled_def cancel_note_def)
  show ?thesis using st g far once twice by blast
qed

section \<open>Intent resolution\<close>

lemma any_match_iff: "any_match ps t \<longleftrightarrow> (\<exists>p\<in>set ps. search p t \<noteq> None)"
  by (induction ps) auto

lemma first_intent_first:
  assumes "i < length ips"
    and "any_match (snd (ips ! i)) t"
    and "\<forall>j<i. \<not> any_match (snd (ips ! j)) t"
  shows "first_intent ips t = Some (fst (ips ! i))"
  using assms
proof (induction ips arbitrary: i)
  case Nil
  then show ?case by simp
next
  case (Cons ip ips)
  obtain intent patterns where ip: "ip = (intent, patterns)" by (cases ip)
  show ?case
  proof (cases i)
    case 0
    with Cons.prems ip show ?thesis by simp
  next
    case (Suc i')
    have head: "\<not> any_match patterns t"
      using Cons.prems(3) [rule_format, of 0] Suc ip by simp
    have earlier: "\<forall>j<i'. \<not> any_match (snd (ips ! j)) t"
    proof (intro allI impI)
      fix j assume "j < i'"
      then show "\<not> any_match (snd (ips ! j)) t"
        using Cons.prems(3) [rule_format, of "Suc j"] Suc by simp
    qed
    have "first_intent ips t = Some (fst (ips ! i'))"
      using Cons.IH [of i'] Cons.prems(1,2) Suc earlier by simp
    with head ip Suc show ?thesis by simp
  qed
qed

lemma first_intent_none:
  assumes "\<forall>j<length ips. \<not> any_match (snd (ips ! j)) t"
  shows "first_intent ips t = None"
  using assms
proof (induction ips)
  case Nil
  then show ?case by simp
next
  case (Cons ip ips)
  obtain intent patterns where ip: "ip = (intent, patterns)" by (cases ip)
  have head: "\<not> any_match patterns t"
    using Cons.prems [rule_format, of 0] ip by simp
  have "\<forall>j<length ips. \<not> any_match (snd (ips ! j)) t"
  proof (intro allI impI)
    fix j assume "j < length ips"
    then show "\<not> any_match (snd (ips ! j)) t"
      using Cons.prems [rule_format, of "Suc j"] by simp
  qed
  with Cons.IH head ip show ?case by simp
qed

text \<open>
  C7. \<^verbatim>\<open>extract_intent\<close> lowercases and trims the text and goes through the intents in
  the order schedule_appointment, check_availability, insurance_inquiry, service_inquiry,
  office_hours, emergency. The answer is the first intent in that order one of whose
  patterns is found in the text, with the entities extracted for that intent: when a
  pattern of the intent at position \<open>i\<close> is found and no pattern of an earlier intent is,
  the intent at position \<open>i\<close> is returned, whatever later intents would match. When no
  pattern of any intent is found the answer is general_inquiry with the text as query.
\<close>

theorem first_match_wins:
  "map fst intent_patterns =
     [''schedule_appointment'', ''check_availability'', ''insurance_inquiry'',
      ''service_inquiry'', ''office_hours'', ''emergency''] \<and>
   (\<forall>i<length intent_patterns.
      (\<exists>p\<in>set (snd (intent_patterns ! i)). search p (strip (lower text)) \<noteq> None) \<longrightarrow>
      (\<forall>j<i. \<forall>p\<in>set (snd (intent_patterns ! j)). search p (strip (lower text)) = None) \<longrightarrow>
      extract_intent text =
        (fst (intent_patterns ! i),
         extract_entities (strip (lower text)) (fst (intent_patterns ! i)))) \<and>
   ((\<forall>j<length intent_patterns.
       \<forall>p\<in>set (snd (intent_patterns ! j)). search p (strip (lower text)) = None) \<longrightarrow>
      extract_intent text = (''general_inquiry'', [(''query'', strip (lower text))]))"
proof (intro conjI allI impI)
  show "map fst intent_patterns =
     [''schedule_appointment'', ''check_availability'', ''insurance_inquiry'',
      ''service_inquiry'', ''office_hours'', ''emergency'']"
    by (simp add: intent_patterns_def)
next
  fix i
  assume i: "i < length intent_patterns"
    and found: "\<exists>p\<in>set (snd (intent_patterns ! i)). search p (strip (lower text)) \<noteq> None"
    and earlier: "\<forall>j<i. \<forall>p\<in>set (snd (intent_patterns ! j)).
                    search p (strip (lower text)) = None"
  have "first_intent intent_patterns (strip (lower text)) = Some (fst (intent_patterns ! i))"
    using i found earlier by (intro first_intent_first) (auto simp: any_match_iff)
  then show "extract_intent text =
        (fst (intent_patterns ! i),
         extract_entities (strip (lower text)) (fst (intent_patterns ! i)))"
    by (simp add: extract_intent_def)
next
  assume "\<forall>j<length intent_patterns.
       \<forall>p\<in>set (snd (intent_patterns ! j)). search p (strip (lower text)) = None"
  then have "first_intent intent_patterns (strip (lower text)) = None"
    by (intro first_intent_none) (auto simp: any_match_iff)
  then show "extract_intent text = (''general_inquiry'', [(''query'', strip (lower text))])"
    by (simp add: extract_intent_def)
qed

theorem first_match_wins_witness:
  "strip (lower ''  My tooth HURTS - any free slot today?  '') =
     ''my tooth hurts - any free slot today?'' \<and>
   search (hd (snd (intent_patterns ! 1))) ''my tooth hurts - any free slot today?'' =
     Some ''free slot'' \<and>
   search (hd (snd (intent_patterns ! 5))) ''my tooth hurts - any free slot today?'' =
     Some ''hurt'' \<and>
   extract_intent ''  My tooth HURTS - any free slot today?  '' =
     (''check_availability'', [(''original_text'', ''my tooth hurts - any free slot today?'')])"
proof -
  have t: "strip (lower ''  My tooth HURTS - any free slot today?  '') =
     ''my tooth hurts - any free slot today?''"
    by code_simp
  have one: "1 < length intent_patterns"
    by (simp add: intent_patterns_def)
  have avail: "search (hd (snd (intent_patterns ! 1))) ''my tooth hurts - any free slot today?'' =
     Some ''free slot''"
    by code_simp
  have emerg: "search (hd (snd (intent_patterns ! 5))) ''my tooth hurts - any free slot today?'' =
     Some ''hurt''"
    by code_simp
  have found: "\<exists>p\<in>set (snd (intent_patterns ! 1)).
      search p (strip (lower ''  My tooth HURTS - any free slot today?  '')) \<noteq> None"
    unfolding t by code_simp
  have sched: "\<forall>p\<in>set (snd (intent_patterns ! 0)).
      search p ''my tooth hurts - any free slot today?'' = None"
    by code_simp
  have earlier: "\<forall>j<1. \<forall>p\<in>set (snd (intent_patterns ! j)).
      search p (strip (lower ''  My tooth HURTS - any free slot today?  '')) = None"
    unfolding t using sched by simp
  have name: "fst (intent_patterns ! 1) = ''check_availability''"
    by (simp add: intent_patterns_def)
  have ents: "extract_entities ''my tooth hurts - any free slot today?'' ''check_availability'' =
      [(''original_text'', ''my tooth hurts - any free slot today?'')]"
    by (simp add: extract_entities_def)
  have "extract_intent ''  My tooth HURTS - any free slot today?  '' =
     (''check_availability'', [(''original_text'', ''my tooth hurts - any free slot today?'')])"
    using first_match_wins [of "''  My tooth HURTS - any free slot today?  ''",
        THEN conjunct2, THEN conjunct1, rule_format, OF one found earlier [rule_format]]
    unfolding t name ents .
  with t avail emerg show ?thesis by blast
qed

text \<open>
  C8. For the text "I want to schedule a cleaning appointment for tomorrow morning",
  \<^verbatim>\<open>extract_intent\<close> returns the intent schedule_appointment, and entities in which
  service_type is "cleaning" and preferred_time is "tomorrow", the match of the first
  date pattern; that pattern is the first in the declared order to match the text.
\<close>

theorem extract_intent_cleaning_tomorrow:
  "extract_intent ''I want to schedule a cleaning appointment for tomorrow morning'' =
     (''schedule_appointment'',
      [(''original_text'', ''i want to schedule a cleaning appointment for tomorrow morning''),
       (''preferred_time'', ''tomorrow''),
       (''service_type'', ''cleaning'')]) \<and>
   dict_get (snd (extract_intent
       ''I want to schedule a cleaning appointment for tomorrow morning'')) ''service_type'' =
     Some ''cleaning'' \<and>
   dict_get (snd (extract_intent
       ''I want to schedule a cleaning appointment for tomorrow morning'')) ''preferred_time'' =
     Some ''tomorrow'' \<and>
   search (date_patterns ! 0)
       ''i want to schedule a cleaning appointment for tomorrow morning'' = Some ''tomorrow''"
  by code_simp

section \<open>Persistence\<close>

lemma AppointmentType_round_trip: "AppointmentType_of (AppointmentType_value ty) = Inr ty"
  by (cases ty) (simp_all add: AppointmentType_of_def)

lemma AppointmentStatus_round_trip: "AppointmentStatus_of (AppointmentStatus_value st) = Inr st"
  by (cases st) (simp_all add: AppointmentStatus_of_def)

text \<open>
  C9. Writing an appointment with \<^verbatim>\<open>to_dict\<close> and building an appointment from that
  dictionary with \<^verbatim>\<open>_create_appointment_from_dict\<close> gives back the same appointment: id,
  patient id, type, scheduled date, duration, dentist id, notes, status, created and
  updated timestamps, reminders-sent list and treatment-notes list are all equal. The
  library's \<^verbatim>\<open>fromisoformat\<close> is taken to read back what \<^verbatim>\<open>isoformat\<close> wrote for the three
  timestamps of the appointment.
\<close>

theorem to_dict_round_trip:
  assumes "fromisoformat (isoformat (scheduled_date a)) = Inr (scheduled_date a)"
    and "fromisoformat (isoformat (created_at a)) = Inr (created_at a)"
    and "fromisoformat (isoformat (updated_at a)) = Inr (updated_at a)"
  shows "create_appointment_from_dict fromisoformat (to_dict isoformat a) t1 t2 = Inr a"
proof -
  have items:
    "item (to_dict isoformat a) ''appointment_id'' = Inr (JStr (appointment_id a))"
    "item (to_dict isoformat a) ''patient_id'' = Inr (JStr (patient_id a))"
    "item (to_dict isoformat a) ''appointment_type'' =
       Inr (JStr (AppointmentType_value (appointment_type a)))"
    "item (to_dict isoformat a) ''scheduled_date'' = Inr (JStr (isoformat (scheduled_date a)))"
    "item (to_dict isoformat a) ''duration_minutes'' = Inr (JInt (duration_minutes a))"
    "item (to_dict isoformat a) ''status'' = Inr (JStr (AppointmentStatus_value (status a)))"
    "item (to_dict isoformat a) ''created_at'' = Inr (JStr (isoformat (created_at a)))"
    "item (to_dict isoformat a) ''updated_at'' = Inr (JStr (isoformat (updated_at a)))"
    by (simp_all add: item_def to_dict_def)
  have gets:
    "get_optional_str (to_dict isoformat a) ''dentist_id'' = Inr (dentist_id a)"
    "get_str (to_dict isoformat a) ''notes'' [] = Inr (notes' a)"
    "get_list (to_dict isoformat a) ''reminders_sent'' = Inr (reminders_sent a)"
    "get_list (to_dict isoformat a) ''treatment_notes'' = Inr (treatment_notes a)"
    by (simp_all add: get_optional_str_def get_str_def get_list_def to_dict_def
        split: option.split)
  show ?thesis
    unfolding create_appointment_from_dict_def items gets
    by (simp add: bind_result_def assms AppointmentType_round_trip
        AppointmentStatus_round_trip Appointment_def Let_def)
qed

theorem to_dict_round_trip_witness:
  "table_fromisoformat (table_isoformat (scheduled_date appt_cancelled)) =
     Inr (scheduled_date appt_cancelled) \<and>
   table_isoformat (scheduled_date appt_cancelled) = ''2024-01-15T10:00:00'' \<and>
   dict_get (to_dict table_isoformat appt_cancelled) ''created_at'' =
     Some (JStr ''2024-01-10T08:15:00.250000'') \<and>
   dict_get (to_dict table_isoformat appt_cancelled) ''status'' = Some (JStr ''cancelled'') \<and>
   create_appointment_from_dict table_fromisoformat (to_dict table_isoformat appt_cancelled)
       63840916800000000 63840916800000001 = Inr appt_cancelled"
proof -
  have sd: "table_fromisoformat (table_isoformat (scheduled_date appt_cancelled)) =
              Inr (scheduled_date appt_cancelled)"
    by (simp add: table_fromisoformat_def table_isoformat_def iso_table_def appt_cancelled_def)
  have ca: "table_fromisoformat (table_isoformat (created_at appt_cancelled)) =
              Inr (created_at appt_cancelled)"
    by (simp add: table_fromisoformat_def table_isoformat_def iso_table_def appt_cancelled_def)
  have ua: "table_fromisoformat (table_isoformat (updated_at appt_cancelled)) =
              Inr (updated_at appt_cancelled)"
    by (simp add: table_fromisoformat_def table_isoformat_def iso_table_def appt_cancelled_def)
  have iso: "table_isoformat (scheduled_date appt_cancelled) = ''2024-01-15T10:00:00''"
    by (simp add: table_isoformat_def iso_table_def appt_cancelled_def)
  have c: "dict_get (to_dict table_isoformat appt_cancelled) ''created_at'' =
     Some (JStr ''2024-01-10T08:15:00.250000'')"
    by (simp add: to_dict_def table_isoformat_def iso_table_def appt_cancelled_def)
  have st: "dict_get (to_dict table_isoformat appt_cancelled) ''status'' = Some (JStr ''cancelled'')"
    by (simp add: to_dict_def appt_cancelled_def)
  show ?thesis
    using sd iso c st to_dict_round_trip [OF sd ca ua, of 63840916800000000 63840916800000001]
    by blast
qed

end
